theory Spec2Isabelle
  imports Main
begin

section \<open>Strings\<close>

text \<open>
  JavaScript strings are modelled as \<^typ>\<open>string\<close>: one \<^typ>\<open>char\<close> per UTF-16 code unit,
  for strings whose code units are below 256 (Latin-1), so \<^term>\<open>length\<close> is
  \<open>String.prototype.length\<close>. The character classes below are those of the regular
  expressions in \<open>src/lib/auth.ts\<close> and \<open>src/lib/db-errors.ts\<close>, read on such strings.
\<close>

definition lowerLetters :: string where
  "lowerLetters = ''abcdefghijklmnopqrstuvwxyz''"

definition upperLetters :: string where
  "upperLetters = ''ABCDEFGHIJKLMNOPQRSTUVWXYZ''"

definition digitChars :: string where
  "digitChars = ''0123456789''"

text \<open>The class \<open>[!@#$%^&*()_+\-=\[\]{};':"\\|,.<>\/?]\<close>; the apostrophe, the double
  quote and the backslash are written by their codes.\<close>

definition specialChars :: string where
  "specialChars = ''!@#$%^&*()_+-=[]{};:|,.<>/?'' @ [CHR 0x27, CHR 0x22, CHR 0x5C]"

text \<open>\<open>\s\<close>, which is also what \<open>trim\<close> removes, below 256: tab, line feed, vertical tab,
  form feed, carriage return, space, no-break space.\<close>

definition whitespaceChars :: string where
  "whitespaceChars =
     [CHR 0x09, CHR 0x0A, CHR 0x0B, CHR 0x0C, CHR 0x0D, CHR 0x20, CHR 0xA0]"

text \<open>The characters below 256 that the regular expression dot does not match (no \<open>s\<close>
  flag): line feed and carriage return.\<close>

definition lineTerminators :: string where
  "lineTerminators = [CHR 0x0A, CHR 0x0D]"

text \<open>\<open>toLowerCase\<close> below 256: \<open>A\<close> to \<open>Z\<close> and the Latin-1 capitals U+00C0 to U+00DE, the
  multiplication sign U+00D7 apart, move up by 32; every other character stays.\<close>

definition toLowerChar :: "char \<Rightarrow> char" where
  "toLowerChar c =
     (let n = (of_char c :: nat) in
      if (65 \<le> n \<and> n \<le> 90) \<or> (192 \<le> n \<and> n \<le> 222 \<and> n \<noteq> 215) then char_of (n + 32)
      else c)"

definition toLowerCase :: "string \<Rightarrow> string" where
  "toLowerCase s = map toLowerChar s"

definition trim :: "string \<Rightarrow> string" where
  "trim s = rev (dropWhile (\<lambda>c. c \<in> set whitespaceChars)
              (rev (dropWhile (\<lambda>c. c \<in> set whitespaceChars) s)))"

text \<open>An unanchored literal pattern matches when it occurs as a contiguous run.\<close>

fun contains :: "string \<Rightarrow> string \<Rightarrow> bool" where
  "contains [] needle = (needle = [])"
| "contains (c # cs) needle =
     (take (length needle) (c # cs) = needle \<or> contains cs needle)"

text \<open>Decimal rendering of a non-negative integer, as a template literal prints it.\<close>

fun showNat :: "nat \<Rightarrow> string" where
  "showNat n =
     (if n < 10 then [digitChars ! n] else showNat (n div 10) @ [digitChars ! (n mod 10)])"

declare showNat.simps [simp del]

section \<open>Password strength (\<open>validatePasswordStrength\<close>, src/lib/auth.ts)\<close>

record strength =
  isValid :: bool
  score :: int
  feedback :: "string list"

text \<open>\<open>/(.)\1{2,}/\<close>: some character the dot matches, followed by itself at least twice.\<close>

fun hasRepeat :: "string \<Rightarrow> bool" where
  "hasRepeat (a # b # c # rest) =
     ((a \<notin> set lineTerminators \<and> b = a \<and> c = a) \<or> hasRepeat (b # c # rest))"
| "hasRepeat _ = False"

text \<open>\<open>/123|abc|qwe|password|admin/i\<close>: the alternatives, matched ignoring case. They are
  ASCII, and below 256 only the capital of an ASCII letter folds to it.\<close>

definition weakPatterns :: "string list" where
  "weakPatterns = [''123'', ''abc'', ''qwe'', ''password'', ''admin'']"

definition hasWeakPattern :: "string \<Rightarrow> bool" where
  "hasWeakPattern password = list_ex (contains (toLowerCase password)) weakPatterns"

definition hasLower :: "string \<Rightarrow> bool" where
  "hasLower password = list_ex (\<lambda>c. c \<in> set lowerLetters) password"

definition hasUpper :: "string \<Rightarrow> bool" where
  "hasUpper password = list_ex (\<lambda>c. c \<in> set upperLetters) password"

definition hasDigit :: "string \<Rightarrow> bool" where
  "hasDigit password = list_ex (\<lambda>c. c \<in> set digitChars) password"

definition hasSpecial :: "string \<Rightarrow> bool" where
  "hasSpecial password = list_ex (\<lambda>c. c \<in> set specialChars) password"

text \<open>
  The function keeps two mutable locals, \<open>score\<close> and \<open>feedback\<close>; each statement of the
  source is one step on the pair, in the source's order.
\<close>

definition validatePasswordStrength :: "string \<Rightarrow> strength" where
  "validatePasswordStrength password =
     (if password = [] then
        \<lparr>isValid = False, score = 0, feedback = [''Password is required'']\<rparr>
      else
        let (s1, f1) =
              (if length password < 8
               then (0, [''Password must be at least 8 characters long''])
               else if length password \<ge> 8 then (1, []) else (0, []));
            s2 = (if length password \<ge> 12 then s1 + 1 else s1);
            (s3, f3) =
              (if hasLower password then (s2 + 1, f1)
               else (s2, f1 @ [''Include lowercase letters'']));
            (s4, f4) =
              (if hasUpper password then (s3 + 1, f3)
               else (s3, f3 @ [''Include uppercase letters'']));
            (s5, f5) =
              (if hasDigit password then (s4 + 1, f4)
               else (s4, f4 @ [''Include numbers'']));
            (s6, f6) =
              (if hasSpecial password then (s5 + 1, f5)
               else (s5, f5 @ [''Include special characters'']));
            (s7, f7) =
              (if hasRepeat password then (s6 - 1, f6 @ [''Avoid repeating characters''])
               else (s6, f6));
            (s8, f8) =
              (if hasWeakPattern password then (s7 - 2, f7 @ [''Avoid common patterns''])
               else (s7, f7));
            valid = (s8 \<ge> 4 \<and> length password \<ge> 8);
            f9 = (if f8 = [] \<and> valid then f8 @ [''Strong password!''] else f8)
        in \<lparr>isValid = valid, score = max 0 s8, feedback = f9\<rparr>)"

text \<open>
  The rubric as the specification words it, for comparison with the function: one point
  each for length at least 8, length at least 12, a lowercase letter, an uppercase letter,
  a digit and a symbol; one off when a character repeats three or more times in a row
  (\<open>repeats\<close> says which runs count); two off for a weak pattern.
\<close>

definition rubric :: "(string \<Rightarrow> bool) \<Rightarrow> string \<Rightarrow> int" where
  "rubric repeats password =
     of_bool (length password \<ge> 8) + of_bool (length password \<ge> 12)
     + of_bool (hasLower password) + of_bool (hasUpper password)
     + of_bool (hasDigit password) + of_bool (hasSpecial password)
     - of_bool (repeats password) - 2 * of_bool (hasWeakPattern password)"

text \<open>The specification's reading of the repeat penalty: any character at all.\<close>

fun anyCharRepeats :: "string \<Rightarrow> bool" where
  "anyCharRepeats (a # b # c # rest) = ((b = a \<and> c = a) \<or> anyCharRepeats (b # c # rest))"
| "anyCharRepeats _ = False"

section \<open>Rate limiting (\<open>checkRateLimit\<close>, \<open>clearRateLimit\<close>, src/lib/auth.ts)\<close>

text \<open>
  \<open>authAttempts\<close> is a module-level \<open>Map\<close> from identifier to \<open>{count, lastAttempt}\<close>; it is
  passed in and returned. \<open>now\<close> is the value \<open>Date.now()\<close> returns for the call, in
  milliseconds.
\<close>

record attempt =
  count :: int
  lastAttempt :: int

type_synonym authAttempts = "string \<rightharpoonup> attempt"

definition checkRateLimit ::
    "int \<Rightarrow> string \<Rightarrow> int \<Rightarrow> int \<Rightarrow> authAttempts \<Rightarrow> bool \<times> authAttempts" where
  "checkRateLimit now identifier maxAttempts windowMs authAttempts =
     (case authAttempts identifier of
        None \<Rightarrow> (True, authAttempts(identifier \<mapsto> \<lparr>count = 1, lastAttempt = now\<rparr>))
      | Some attempts \<Rightarrow>
          if now - lastAttempt attempts > windowMs then
            (True, authAttempts(identifier \<mapsto> \<lparr>count = 1, lastAttempt = now\<rparr>))
          else if count attempts \<ge> maxAttempts then (False, authAttempts)
          else (True, authAttempts(identifier \<mapsto>
                        \<lparr>count = count attempts + 1, lastAttempt = now\<rparr>)))"

definition clearRateLimit :: "string \<Rightarrow> authAttempts \<Rightarrow> authAttempts" where
  "clearRateLimit identifier authAttempts = authAttempts(identifier := None)"

text \<open>A run of calls for one identifier at the given clock readings: the answers, in
  order, and the map left behind.\<close>

fun checkRateLimitRun ::
    "string \<Rightarrow> int \<Rightarrow> int \<Rightarrow> int list \<Rightarrow> authAttempts \<Rightarrow> bool list \<times> authAttempts" where
  "checkRateLimitRun identifier maxAttempts windowMs [] m = ([], m)"
| "checkRateLimitRun identifier maxAttempts windowMs (now # nows) m =
     (let (ok, m') = checkRateLimit now identifier maxAttempts windowMs m;
          (oks, m'') = checkRateLimitRun identifier maxAttempts windowMs nows m'
      in (ok # oks, m''))"

subsection \<open>The class \<open>RateLimiter\<close> (src/lib/api-utils.ts)\<close>

text \<open>
  The second limiter of the repository keeps \<open>{count, resetTime}\<close> per identifier; its
  \<open>count\<close> field is \<open>hits\<close> here, the name being taken by the record above. The instance
  fields \<open>maxAttempts\<close> and \<open>windowMs\<close> are fixed at construction.
\<close>

record window =
  hits :: int
  resetTime :: int

record RateLimiter =
  maxAttempts :: int
  windowMs :: int
  attempts :: "string \<rightharpoonup> window"

definition isAllowed :: "int \<Rightarrow> string \<Rightarrow> RateLimiter \<Rightarrow> bool \<times> RateLimiter" where
  "isAllowed now identifier rl =
     (case attempts rl identifier of
        None \<Rightarrow>
          (True, rl\<lparr>attempts := (attempts rl)(identifier \<mapsto>
                        \<lparr>hits = 1, resetTime = now + windowMs rl\<rparr>)\<rparr>)
      | Some attempt \<Rightarrow>
          if now > resetTime attempt then
            (True, rl\<lparr>attempts := (attempts rl)(identifier \<mapsto>
                          \<lparr>hits = 1, resetTime = now + windowMs rl\<rparr>)\<rparr>)
          else if hits attempt \<ge> maxAttempts rl then (False, rl)
          else (True, rl\<lparr>attempts := (attempts rl)(identifier \<mapsto>
                          attempt\<lparr>hits := hits attempt + 1\<rparr>)\<rparr>))"

fun isAllowedRun :: "string \<Rightarrow> int list \<Rightarrow> RateLimiter \<Rightarrow> bool list \<times> RateLimiter" where
  "isAllowedRun identifier [] rl = ([], rl)"
| "isAllowedRun identifier (now # nows) rl =
     (let (ok, rl') = isAllowed now identifier rl;
          (oks, rl'') = isAllowedRun identifier nows rl'
      in (ok # oks, rl''))"

section \<open>Errors (src/lib/db-errors.ts)\<close>

text \<open>
  A thrown JavaScript \<open>Error\<close> is its \<open>name\<close> and \<open>message\<close>; \<open>DatabaseError\<close> extends it with
  \<open>code\<close> and \<open>statusCode\<close>, and its three subclasses only fix these fields. A function that
  may throw returns a sum, the thrown value on the left.
\<close>

record js_error =
  name :: string
  message :: string

record DatabaseError = js_error +
  code :: string
  statusCode :: nat

definition Error :: "string \<Rightarrow> js_error" where
  "Error msg = \<lparr>name = ''Error'', message = msg\<rparr>"

definition SyntaxError :: "string \<Rightarrow> js_error" where
  "SyntaxError msg = \<lparr>name = ''SyntaxError'', message = msg\<rparr>"

definition newDatabaseError :: "string \<Rightarrow> string \<Rightarrow> nat \<Rightarrow> DatabaseError" where
  "newDatabaseError msg c sc =
     \<lparr>name = ''DatabaseError'', message = msg, code = c, statusCode = sc\<rparr>"

definition ValidationError :: "string \<Rightarrow> DatabaseError" where
  "ValidationError msg =
     \<lparr>name = ''ValidationError'', message = msg, code = ''VALIDATION_ERROR'', statusCode = 400\<rparr>"

definition NotFoundError :: "string \<Rightarrow> DatabaseError" where
  "NotFoundError msg =
     \<lparr>name = ''NotFoundError'', message = msg, code = ''NOT_FOUND'', statusCode = 404\<rparr>"

definition ConflictError :: "string \<Rightarrow> DatabaseError" where
  "ConflictError msg =
     \<lparr>name = ''ConflictError'', message = msg, code = ''CONFLICT'', statusCode = 409\<rparr>"

text \<open>\<open>handleDynamoDBError\<close> reads only \<open>error?.name\<close>, so it takes any error value.\<close>

definition handleDynamoDBError :: "'a js_error_scheme \<Rightarrow> DatabaseError" where
  "handleDynamoDBError error =
     (let errorName = (if name error = [] then ''UnknownError'' else name error) in
      if errorName = ''ConditionalCheckFailedException'' then
        ConflictError ''Resource already exists or condition not met''
      else if errorName = ''ResourceNotFoundException'' then
        NotFoundError ''Requested resource not found''
      else if errorName = ''ValidationException'' then
        ValidationError ''Invalid input provided''
      else if errorName = ''ProvisionedThroughputExceededException'' then
        newDatabaseError ''Service temporarily unavailable'' ''RATE_LIMIT'' 429
      else if errorName = ''ItemCollectionSizeLimitExceededException'' then
        newDatabaseError ''Data limit exceeded'' ''DATA_LIMIT'' 413
      else if errorName = ''AccessDeniedException'' then
        newDatabaseError ''Access denied'' ''ACCESS_DENIED'' 403
      else newDatabaseError ''Internal server error'' ''INTERNAL_ERROR'' 500)"

subsection \<open>Input validation\<close>

text \<open>
  \<open>/^[^\s@]+@[^\s@]+\.[^\s@]+$/\<close>: a non-empty local part, one \<open>@\<close>, and a domain with a dot
  that is neither its first nor its last character; no whitespace and no further \<open>@\<close>
  anywhere.
\<close>

definition emailRegex :: "string \<Rightarrow> bool" where
  "emailRegex s =
     (let plain = (\<lambda>c. c \<notin> set whitespaceChars \<and> c \<noteq> CHR ''@'');
          local = takeWhile (\<lambda>c. c \<noteq> CHR ''@'') s;
          domain = drop 1 (dropWhile (\<lambda>c. c \<noteq> CHR ''@'') s)
      in CHR ''@'' \<in> set s \<and> local \<noteq> [] \<and> list_all plain local \<and> list_all plain domain
         \<and> list_ex (\<lambda>i. domain ! i = CHR ''.'') [1 ..< length domain - 1])"

definition validateEmail :: "string \<Rightarrow> DatabaseError + unit" where
  "validateEmail email =
     (if email = [] then Inl (ValidationError ''Email is required'')
      else if \<not> emailRegex email then Inl (ValidationError ''Invalid email format'')
      else if length email > 254 then Inl (ValidationError ''Email too long'')
      else Inr ())"

definition validateStudentId :: "string \<Rightarrow> DatabaseError + unit" where
  "validateStudentId studentId =
     (if studentId = [] then Inl (ValidationError ''Student ID is required'')
      else if length studentId < 5 \<or> length studentId > 20 then
        Inl (ValidationError ''Student ID must be between 5 and 20 characters'')
      else if \<not> list_all (\<lambda>c. c \<in> set (lowerLetters @ upperLetters @ digitChars @ ''-''))
                   studentId then
        Inl (ValidationError ''Student ID can only contain letters, numbers, and hyphens'')
      else Inr ())"

definition validateName :: "string \<Rightarrow> DatabaseError + unit" where
  "validateName nm =
     (if nm = [] then Inl (ValidationError ''Name is required'')
      else if length nm < 2 \<or> length nm > 50 then
        Inl (ValidationError ''Name must be between 2 and 50 characters'')
      else if \<not> list_all (\<lambda>c. c \<in> set (lowerLetters @ upperLetters @ whitespaceChars
                                          @ [CHR 0x27, CHR ''-''])) nm then
        Inl (ValidationError
               ''Name can only contain letters, spaces, hyphens, and apostrophes'')
      else Inr ())"

section \<open>The backing store\<close>

text \<open>
  A DynamoDB table is the list of its items, in the order a scan returns them; the key
  attribute of an item is given by \<open>key\<close>. That order is the store's own (it walks the table
  by key hash), so where a new item comes to stand is not the writer's choice: it enters
  as \<open>slot\<close>, the number of items that precede the new one. An item written over its own
  key stays where it was. Every command either is answered by the store or makes the
  client throw: the \<open>fault\<close> argument is the exception thrown for this call, if any, and a
  call that throws leaves the table as it was. A scan is taken to return the whole table
  in one page.
\<close>

definition insertAt :: "nat \<Rightarrow> 'a \<Rightarrow> 'a list \<Rightarrow> 'a list" where
  "insertAt slot item tbl = take slot tbl @ item # drop slot tbl"

definition conditionalCheckFailed :: js_error where
  "conditionalCheckFailed =
     \<lparr>name = ''ConditionalCheckFailedException'', message = ''The conditional request failed''\<rparr>"

text \<open>\<open>PutCommand\<close> with \<open>ConditionExpression: 'attribute_not_exists(<key>)'\<close>.\<close>

definition putIfAbsent ::
    "('a \<Rightarrow> string) \<Rightarrow> js_error option \<Rightarrow> nat \<Rightarrow> 'a \<Rightarrow> 'a list \<Rightarrow> js_error + 'a list" where
  "putIfAbsent key fault slot item tbl =
     (case fault of
        Some e \<Rightarrow> Inl e
      | None \<Rightarrow>
          if list_ex (\<lambda>x. key x = key item) tbl then Inl conditionalCheckFailed
          else Inr (insertAt slot item tbl))"

text \<open>\<open>PutCommand\<close> without a condition: the item replaces the one stored under its key.
  The repository sends it only for an item it has just read, whose key is in the table; a
  key that is not comes last here.\<close>

fun replaceItem :: "('a \<Rightarrow> string) \<Rightarrow> 'a \<Rightarrow> 'a list \<Rightarrow> 'a list" where
  "replaceItem key item [] = [item]"
| "replaceItem key item (x # xs) =
     (if key x = key item then item # xs else x # replaceItem key item xs)"

definition putItem ::
    "('a \<Rightarrow> string) \<Rightarrow> js_error option \<Rightarrow> 'a \<Rightarrow> 'a list \<Rightarrow> js_error + 'a list" where
  "putItem key fault item tbl =
     (case fault of Some e \<Rightarrow> Inl e | None \<Rightarrow> Inr (replaceItem key item tbl))"

definition getItem ::
    "('a \<Rightarrow> string) \<Rightarrow> js_error option \<Rightarrow> string \<Rightarrow> 'a list \<Rightarrow> js_error + 'a option" where
  "getItem key fault k tbl =
     (case fault of Some e \<Rightarrow> Inl e | None \<Rightarrow> Inr (find (\<lambda>x. key x = k) tbl))"

text \<open>\<open>ScanCommand\<close>, with the filter expression as a predicate.\<close>

definition scan :: "js_error option \<Rightarrow> ('a \<Rightarrow> bool) \<Rightarrow> 'a list \<Rightarrow> js_error + 'a list" where
  "scan fault flt tbl = (case fault of Some e \<Rightarrow> Inl e | None \<Rightarrow> Inr (filter flt tbl))"

subsection \<open>Commands in flight\<close>

text \<open>
  What \<open>docClient.send\<close> is given and what it gives back. The flag of \<open>PutCommand\<close> says
  whether \<open>ConditionExpression: 'attribute_not_exists(<key>)'\<close> is set. The store takes one
  command at a time.
\<close>

datatype 'a command =
    PutCommand 'a bool
  | GetCommand string
  | ScanCommand "'a \<Rightarrow> bool"

datatype 'a reply =
    PutOutput
  | GetOutput "'a option"
  | ScanOutput "'a list"

definition send ::
    "('a \<Rightarrow> string) \<Rightarrow> js_error option \<Rightarrow> nat \<Rightarrow> 'a command \<Rightarrow> 'a list
      \<Rightarrow> (js_error + 'a reply) \<times> 'a list" where
  "send key fault slot cmd tbl =
     (case cmd of
        PutCommand item conditional \<Rightarrow>
          (case (if conditional then putIfAbsent key fault slot item tbl
                 else putItem key fault item tbl) of
             Inl e \<Rightarrow> (Inl e, tbl)
           | Inr tbl' \<Rightarrow> (Inr PutOutput, tbl'))
      | GetCommand k \<Rightarrow>
          (case getItem key fault k tbl of
             Inl e \<Rightarrow> (Inl e, tbl)
           | Inr item \<Rightarrow> (Inr (GetOutput item), tbl))
      | ScanCommand flt \<Rightarrow>
          (case scan fault flt tbl of
             Inl e \<Rightarrow> (Inl e, tbl)
           | Inr items \<Rightarrow> (Inr (ScanOutput items), tbl)))"

text \<open>
  An \<open>async\<close> function of the repository written out by its \<open>await\<close>s: it returns, or it
  sends a command and goes on with what comes back, a reply or the exception thrown.
  Between two \<open>await\<close>s it runs without interruption.
\<close>

datatype ('a, 'r) call =
    Return 'r
  | Await "'a command" "js_error + 'a reply \<Rightarrow> ('a, 'r) call"

text \<open>One call on its own: \<open>world i\<close> is the fault and the slot of its \<open>i\<close>-th command.\<close>

primrec run ::
    "('a \<Rightarrow> string) \<Rightarrow> ('a, 'r) call \<Rightarrow> (nat \<Rightarrow> js_error option \<times> nat) \<Rightarrow> 'a list
      \<Rightarrow> 'r \<times> 'a list" where
  "run key (Return r) world tbl = (r, tbl)"
| "run key (Await cmd k) world tbl =
     (case send key (fst (world 0)) (snd (world 0)) cmd tbl of
        (answer, tbl') \<Rightarrow> run key (k answer) (\<lambda>i. world (Suc i)) tbl')"

text \<open>
  Two calls in flight against a store that answers: the schedule says, turn by turn, whose
  pending command the store takes next, and the slot it uses. A call that has returned
  lets its turn pass. The result is what is left of the two calls, and the table.
\<close>

primrec interleave ::
    "('a \<Rightarrow> string) \<Rightarrow> (bool \<times> nat) list \<Rightarrow> ('a, 'r) call \<Rightarrow> ('a, 's) call \<Rightarrow> 'a list
      \<Rightarrow> (('a, 'r) call \<times> ('a, 's) call) \<times> 'a list" where
  "interleave key [] p q tbl = ((p, q), tbl)"
| "interleave key (turn # sched) p q tbl =
     (if fst turn then
        (case p of
           Return r \<Rightarrow> interleave key sched p q tbl
         | Await cmd k \<Rightarrow>
             (case send key None (snd turn) cmd tbl of
                (answer, tbl') \<Rightarrow> interleave key sched (k answer) q tbl'))
      else
        (case q of
           Return r \<Rightarrow> interleave key sched p q tbl
         | Await cmd k \<Rightarrow>
             (case send key None (snd turn) cmd tbl of
                (answer, tbl') \<Rightarrow> interleave key sched p (k answer) tbl')))"

section \<open>The repository (src/lib/db.ts)\<close>

record User =
  email :: string
  passwordHash :: string
  name :: string
  studentId :: string
  createdAt :: string
  updatedAt :: string

datatype status = active | dropped

text \<open>
  A value held where the TypeScript type says \<open>string\<close>: a string, or, read from an object
  literal under a key the literal does not define, the member of \<open>Object.prototype\<close> of that
  name (a function, or the prototype itself): truthy, and equal to no string.
\<close>

datatype js_value = Str string | ProtoMember string

text \<open>
  The stored enrollment item. Its key \<open>id\<close> is \<open>enrollmentId\<close> here (the name of the local
  that holds it in \<open>enrollInClass\<close>), \<open>id\<close> being the identity function of HOL. \<open>updatedAt\<close> is
  the attribute \<open>unenrollFromClass\<close> adds; an item written by \<open>enrollInClass\<close> has none.
  \<open>className\<close> holds what the caller passed, which the API route reads from its catalogue
  object.
\<close>

record Enrollment =
  enrollmentId :: string
  email :: string
  className :: js_value
  classId :: string
  enrolledAt :: string
  status :: status
  updatedAt :: "string option"

definition normalizeEmail :: "string \<Rightarrow> string" where
  "normalizeEmail e = trim (toLowerCase e)"

text \<open>
  \<open>createUser\<close>, by its \<open>await\<close>s: everything inside the \<open>try\<close> that throws is caught and
  passed through \<open>handleDynamoDBError\<close>. \<open>now\<close> is \<open>new Date().toISOString()\<close>.
\<close>

definition createUser_call ::
    "string \<Rightarrow> string \<Rightarrow> string \<Rightarrow> string \<Rightarrow> string \<Rightarrow> (User, DatabaseError + User) call" where
  "createUser_call now em pwHash nm sid =
     (case validateEmail em of
        Inl e \<Rightarrow> Return (Inl (handleDynamoDBError e))
      | Inr _ \<Rightarrow>
     (case validateName nm of
        Inl e \<Rightarrow> Return (Inl (handleDynamoDBError e))
      | Inr _ \<Rightarrow>
     (case validateStudentId sid of
        Inl e \<Rightarrow> Return (Inl (handleDynamoDBError e))
      | Inr _ \<Rightarrow>
     (if pwHash = [] then
        Return (Inl (handleDynamoDBError (Error ''Password hash is required'')))
      else
        let user = \<lparr>User.email = normalizeEmail em, passwordHash = pwHash,
                    User.name = trim nm, studentId = trim sid,
                    createdAt = now, User.updatedAt = now\<rparr>
        in Await (PutCommand user True)
             (\<lambda>answer. case answer of
                         Inl e \<Rightarrow> Return (Inl (handleDynamoDBError e))
                       | Inr _ \<Rightarrow> Return (Inr user))))))"

text \<open>The call on its own, against the users table (key \<open>email\<close>), with the fault and the
  slot of its command.\<close>

definition createUser ::
    "js_error option \<Rightarrow> nat \<Rightarrow> string \<Rightarrow> string \<Rightarrow> string \<Rightarrow> string \<Rightarrow> string \<Rightarrow> User list
      \<Rightarrow> (DatabaseError + User) \<times> User list" where
  "createUser fault slot now em pwHash nm sid users =
     run User.email (createUser_call now em pwHash nm sid) (\<lambda>i. (fault, slot)) users"

definition getUserByEmail :: "js_error option \<Rightarrow> string \<Rightarrow> User list \<Rightarrow> User option" where
  "getUserByEmail fault em users =
     (case validateEmail em of
        Inl _ \<Rightarrow> None
      | Inr _ \<Rightarrow>
          (case getItem User.email fault (normalizeEmail em) users of
             Inl _ \<Rightarrow> None
           | Inr item \<Rightarrow> item))"

text \<open>
  \<open>enrollInClass\<close>: \<open>nowIso\<close> is \<open>new Date().toISOString()\<close> and \<open>nowMs\<close> is \<open>Date.now()\<close>. The
  id is built from the email as given; the stored email is normalized. \<open>fault\<close> and \<open>slot\<close>
  are those of its put.
\<close>

definition enrollInClass ::
    "js_error option \<Rightarrow> nat \<Rightarrow> string \<Rightarrow> nat \<Rightarrow> string \<Rightarrow> js_value \<Rightarrow> string
      \<Rightarrow> Enrollment list \<Rightarrow> (js_error + unit) \<times> Enrollment list" where
  "enrollInClass fault slot nowIso nowMs em clsName clsId tbl =
     (let enrollment =
            \<lparr>enrollmentId = em @ ''-'' @ clsId @ ''-'' @ showNat nowMs,
             email = normalizeEmail em, className = clsName, classId = clsId,
             enrolledAt = nowIso, status = active, updatedAt = None\<rparr>
      in case putIfAbsent enrollmentId fault slot enrollment tbl of
           Inl error \<Rightarrow>
             if js_error.name error = ''ConditionalCheckFailedException''
             then (Inl (Error ''User is already enrolled in this class''), tbl)
             else (Inl (Error ''Failed to enroll in class''), tbl)
         | Inr tbl' \<Rightarrow> (Inr (), tbl'))"

definition getUserEnrollments ::
    "js_error option \<Rightarrow> string \<Rightarrow> Enrollment list \<Rightarrow> Enrollment list" where
  "getUserEnrollments fault em tbl =
     (case scan fault (\<lambda>item. email item = normalizeEmail em) tbl of
        Inl _ \<Rightarrow> []
      | Inr allEnrollments \<Rightarrow>
          filter (\<lambda>enrollment. status enrollment = active) allEnrollments)"

text \<open>
  \<open>unenrollFromClass\<close>, first the body of its \<open>try\<close>, then the function with its
  \<open>catch\<close>, which replaces whatever was thrown by one fixed error. \<open>now\<close> is
  \<open>new Date().toISOString()\<close>.
\<close>

definition unenrollFromClass_try ::
    "js_error option \<Rightarrow> js_error option \<Rightarrow> string \<Rightarrow> string \<Rightarrow> string \<Rightarrow> Enrollment list
      \<Rightarrow> (js_error + unit) \<times> Enrollment list" where
  "unenrollFromClass_try scanFault putFault now em classIdOrName tbl =
     (let enrollments = getUserEnrollments scanFault em tbl in
      case find (\<lambda>e. classId e = classIdOrName \<or> className e = Str classIdOrName)
             enrollments of
        None \<Rightarrow> (Inl (Error ''Enrollment not found''), tbl)
      | Some enrollment \<Rightarrow>
          (case putItem enrollmentId putFault
                  (enrollment\<lparr>status := dropped, updatedAt := Some now\<rparr>) tbl of
             Inl e \<Rightarrow> (Inl e, tbl)
           | Inr tbl' \<Rightarrow> (Inr (), tbl')))"

definition unenrollFromClass ::
    "js_error option \<Rightarrow> js_error option \<Rightarrow> string \<Rightarrow> string \<Rightarrow> string \<Rightarrow> Enrollment list
      \<Rightarrow> (js_error + unit) \<times> Enrollment list" where
  "unenrollFromClass scanFault putFault now em classIdOrName tbl =
     (case unenrollFromClass_try scanFault putFault now em classIdOrName tbl of
        (Inl error, tbl') \<Rightarrow> (Inl (Error ''Failed to unenroll from class''), tbl')
      | (Inr u, tbl') \<Rightarrow> (Inr u, tbl'))"

definition isUserEnrolledInClass ::
    "js_error option \<Rightarrow> string \<Rightarrow> string \<Rightarrow> Enrollment list \<Rightarrow> bool" where
  "isUserEnrolledInClass fault em clsId tbl =
     list_ex (\<lambda>enrollment. classId enrollment = clsId) (getUserEnrollments fault em tbl)"

definition getAllEnrollments :: "js_error option \<Rightarrow> Enrollment list \<Rightarrow> Enrollment list" where
  "getAllEnrollments fault tbl =
     (case scan fault (\<lambda>item. True) tbl of Inl _ \<Rightarrow> [] | Inr items \<Rightarrow> items)"

section \<open>The enrollments API (src/app/api/enrollments/route.ts)\<close>

subsection \<open>Requests and responses (src/lib/api-utils.ts)\<close>

datatype json =
    JNull
  | JBool bool
  | JNumber int
  | JString string
  | JArray "json list"
  | JObject "(string \<times> json) list"

text \<open>Property access on a parsed body: of duplicate keys the last one counts; anything
  but an object has no such property.\<close>

fun property :: "json \<Rightarrow> string \<Rightarrow> json option" where
  "property (JObject kvs) k = map_of (rev kvs) k"
| "property _ k = None"

text \<open>
  What the handlers read of a \<open>NextRequest\<close>: the method (\<open>httpMethod\<close> here, the
  plain name being reserved in Isabelle), the headers they look at
  (\<open>contentLength\<close> is the header after \<open>parseInt\<close>, absent when the header is missing or
  not a number), the connection address, and what \<open>request.json()\<close> yields (\<open>None\<close> when
  it throws).
\<close>

record NextRequest =
  httpMethod :: string
  contentType :: "string option"
  contentLength :: "int option"
  forwardedFor :: "string option"
  realIP :: "string option"
  cfConnectingIP :: "string option"
  ip :: "string option"
  jsonBody :: "json option"

text \<open>The \<open>data\<close> objects of the handlers: \<open>{message, classId, className}\<close> of an enrollment,
  the same with \<open>alreadyEnrolled: true\<close>, and \<open>{message, className}\<close> of an unenrollment.\<close>

datatype data =
    Enrolled string string js_value
  | AlreadyEnrolled string string js_value
  | Unenrolled string string

text \<open>
  A response body is the \<open>ApiResponse\<close> object of \<open>createApiResponse\<close> and
  \<open>createErrorResponse\<close> (\<open>success\<close>, \<open>data\<close>, \<open>message\<close>, \<open>error\<close>), the bare array \<open>GET\<close>
  returns, or the bare \<open>{error}\<close> object of its 401 and 500 answers. The \<open>status\<close> of the
  response is \<open>httpStatus\<close> here, \<open>status\<close> being the enrollment's field.
\<close>

datatype body =
    ApiResponse bool "data option" "string option" "string option"
  | EnrollmentArray "Enrollment list"
  | ErrorObject string

record NextResponse =
  httpStatus :: nat
  body :: body

definition OK :: nat where "OK = 200"
definition CREATED :: nat where "CREATED = 201"
definition BAD_REQUEST :: nat where "BAD_REQUEST = 400"
definition UNAUTHORIZED :: nat where "UNAUTHORIZED = 401"
definition NOT_FOUND :: nat where "NOT_FOUND = 404"
definition CONFLICT :: nat where "CONFLICT = 409"
definition TOO_MANY_REQUESTS :: nat where "TOO_MANY_REQUESTS = 429"
definition INTERNAL_SERVER_ERROR :: nat where "INTERNAL_SERVER_ERROR = 500"
definition NOT_IMPLEMENTED :: nat where "NOT_IMPLEMENTED = 501"

definition createApiResponse :: "data \<Rightarrow> string \<Rightarrow> nat \<Rightarrow> NextResponse" where
  "createApiResponse d msg st =
     \<lparr>httpStatus = st,
      body = ApiResponse (st \<ge> 200 \<and> st < 300) (Some d)
               (if msg = [] then None else Some msg) None\<rparr>"

definition createErrorResponse :: "string \<Rightarrow> nat \<Rightarrow> NextResponse" where
  "createErrorResponse error st =
     \<lparr>httpStatus = st, body = ApiResponse False None None (Some error)\<rparr>"

definition validateMethod :: "NextRequest \<Rightarrow> string list \<Rightarrow> bool" where
  "validateMethod request allowedMethods = (httpMethod request \<in> set allowedMethods)"

definition validateContentType :: "NextRequest \<Rightarrow> string \<Rightarrow> bool" where
  "validateContentType request expectedType =
     (case contentType request of None \<Rightarrow> False | Some ct \<Rightarrow> contains ct expectedType)"

definition getClientIP :: "NextRequest \<Rightarrow> string" where
  "getClientIP request =
     (case forwardedFor request of
        Some (c # cs) \<Rightarrow> trim (takeWhile (\<lambda>x. x \<noteq> CHR '','') (c # cs))
      | _ \<Rightarrow>
     (case realIP request of
        Some (c # cs) \<Rightarrow> c # cs
      | _ \<Rightarrow>
     (case cfConnectingIP request of
        Some (c # cs) \<Rightarrow> c # cs
      | _ \<Rightarrow>
     (case ip request of
        Some (c # cs) \<Rightarrow> c # cs
      | _ \<Rightarrow> ''unknown''))))"

text \<open>\<open>!body || typeof body !== 'object'\<close> lets objects and arrays through.\<close>

fun isObjectValue :: "json \<Rightarrow> bool" where
  "isObjectValue (JObject kvs) = True"
| "isObjectValue (JArray xs) = True"
| "isObjectValue _ = False"

definition parseRequestBody :: "NextRequest \<Rightarrow> int \<Rightarrow> js_error + json" where
  "parseRequestBody request maxSize =
     (let tried =
            (if (case contentLength request of None \<Rightarrow> False | Some n \<Rightarrow> n > maxSize)
             then Inl (Error ''Request body too large'')
             else case jsonBody request of
                    None \<Rightarrow> Inl (SyntaxError ''Unexpected token'')
                  | Some b \<Rightarrow>
                      if \<not> isObjectValue b then Inl (Error ''Invalid request body'')
                      else Inr b)
      in case tried of
           Inl error \<Rightarrow> Inl (Error (''Failed to parse request body: '' @ message error))
         | Inr b \<Rightarrow> Inr b)"

text \<open>
  \<open>enrollmentSchema.safeParse\<close> (src/lib/validations.ts): an object whose \<open>classId\<close> is a
  string of 1 to 50 characters and whose \<open>action\<close> is \<open>enroll\<close> or \<open>unenroll\<close>; the parsed
  pair on success. The text zod gives for a failure is the library's and enters with the
  environment of the call.
\<close>

definition enrollmentSchema :: "json \<Rightarrow> (string \<times> string) option" where
  "enrollmentSchema b =
     (case b of
        JObject kvs \<Rightarrow>
          (case (property b ''classId'', property b ''action'') of
             (Some (JString c), Some (JString a)) \<Rightarrow>
               if 1 \<le> length c \<and> length c \<le> 50 \<and> a \<in> set [''enroll'', ''unenroll'']
               then Some (c, a) else None
           | _ \<Rightarrow> None)
      | _ \<Rightarrow> None)"

subsection \<open>The handlers\<close>

text \<open>
  \<open>getServerSession(authOptions)\<close> is outside the repository's own code; its result enters
  as \<open>session\<close>, the value of \<open>session?.user?.email\<close> (\<open>None\<close> when any link is missing),
  which is all the handlers use of the session user.
\<close>

definition requireAuthentication :: "string option \<Rightarrow> js_error + string" where
  "requireAuthentication session =
     (case session of
        Some (c # cs) \<Rightarrow> Inr (c # cs)
      | _ \<Rightarrow> Inl (Error ''Authentication required''))"

text \<open>
  The state the handlers share: the enrollments table and the process-wide
  \<open>apiRateLimiter\<close>. What a handler call draws from its environment: the clock readings
  (\<open>limiterNow\<close> for \<open>Date.now()\<close> in \<open>isAllowed\<close>, \<open>nowMs\<close> and \<open>nowIso\<close> in the repository),
  the faults of the store calls whose outcome the handler uses, the slot of an item it
  adds, and \<open>zodMessage\<close>, the \<open>error.message\<close> of a failed \<open>safeParse\<close> of its body. The
  scans whose result is only logged (the whole-table scan of \<open>GET\<close>, the check after a
  successful enrollment) are left out: they never throw and write nothing.
\<close>

record app_state =
  enrollments :: "Enrollment list"
  apiRateLimiter :: RateLimiter

record env =
  limiterNow :: int
  nowMs :: nat
  nowIso :: string
  scanFault :: "js_error option"
  putFault :: "js_error option"
  slot :: nat
  zodMessage :: string

definition GET_try :: "env \<Rightarrow> string option \<Rightarrow> app_state \<Rightarrow> js_error + NextResponse" where
  "GET_try ev session st =
     (case requireAuthentication session of
        Inl e \<Rightarrow> Inl e
      | Inr userEmail \<Rightarrow>
          Inr \<lparr>httpStatus = 200,
               body = EnrollmentArray
                        (getUserEnrollments (scanFault ev) userEmail (enrollments st))\<rparr>)"

definition GET :: "env \<Rightarrow> string option \<Rightarrow> app_state \<Rightarrow> NextResponse \<times> app_state" where
  "GET ev session st =
     (case GET_try ev session st of
        Inr response \<Rightarrow> (response, st)
      | Inl error \<Rightarrow>
          if message error = ''Authentication required''
          then (\<lparr>httpStatus = 401, body = ErrorObject ''Unauthorized''\<rparr>, st)
          else (\<lparr>httpStatus = 500, body = ErrorObject ''Failed to get enrollments''\<rparr>, st))"

text \<open>
  The inline class catalogue of \<open>POST\<close>, an object literal read by \<open>classNames[classId]\<close>:
  its three entries, and under the property names of \<open>Object.prototype\<close> the inherited
  members.
\<close>

definition objectPrototypeKeys :: "string list" where
  "objectPrototypeKeys =
     [''constructor'', ''__defineGetter__'', ''__defineSetter__'', ''hasOwnProperty'',
      ''__lookupGetter__'', ''__lookupSetter__'', ''isPrototypeOf'',
      ''propertyIsEnumerable'', ''toString'', ''valueOf'', ''__proto__'',
      ''toLocaleString'']"

definition classNames :: "string \<rightharpoonup> js_value" where
  "classNames k =
     (if k = ''1'' then Some (Str ''Web Development 101'')
      else if k = ''2'' then Some (Str ''Database Basics'')
      else if k = ''3'' then Some (Str ''Cybersecurity Fundamentals'')
      else if k \<in> set objectPrototypeKeys then Some (ProtoMember k)
      else None)"

definition POST_try ::
    "env \<Rightarrow> string option \<Rightarrow> NextRequest \<Rightarrow> app_state
      \<Rightarrow> (js_error + NextResponse) \<times> app_state" where
  "POST_try ev session request st =
     (if \<not> validateMethod request [''POST''] then
        (Inr (createErrorResponse ''Method not allowed'' BAD_REQUEST), st)
      else if \<not> validateContentType request ''application/json'' then
        (Inr (createErrorResponse ''Invalid content type'' BAD_REQUEST), st)
      else
     (case requireAuthentication session of
        Inl e \<Rightarrow> (Inl e, st)
      | Inr userEmail \<Rightarrow>
     (let clientIP = getClientIP request;
          (allowed, limiter) =
            isAllowed (limiterNow ev) (''enrollment-'' @ userEmail @ ''-'' @ clientIP)
              (apiRateLimiter st);
          st1 = st\<lparr>apiRateLimiter := limiter\<rparr>
      in
      if \<not> allowed then
        (Inr (createErrorResponse ''Too many enrollment attempts. Please try again later.''
                TOO_MANY_REQUESTS), st1)
      else
     (case parseRequestBody request 512 of
        Inl e \<Rightarrow> (Inl e, st1)
      | Inr b \<Rightarrow>
     (case enrollmentSchema b of
        None \<Rightarrow>
          (Inr (createErrorResponse (''Invalid enrollment data: '' @ zodMessage ev)
                  BAD_REQUEST), st1)
      | Some (clsId, action) \<Rightarrow>
          if action = ''enroll'' then
            if isUserEnrolledInClass (scanFault ev) userEmail clsId (enrollments st1) then
              (Inr (createErrorResponse ''You are already enrolled in this class'' CONFLICT),
               st1)
            else
              (case classNames clsId of
                 None \<Rightarrow> (Inr (createErrorResponse ''Class not found'' NOT_FOUND), st1)
               | Some clsName \<Rightarrow>
                   (case enrollInClass (putFault ev) (slot ev) (nowIso ev) (nowMs ev)
                           userEmail clsName clsId (enrollments st1) of
                      (Inr u, tbl) \<Rightarrow>
                        (Inr (createApiResponse
                                (Enrolled ''Successfully enrolled in class'' clsId clsName)
                                ''Enrollment successful'' CREATED),
                         st1\<lparr>enrollments := tbl\<rparr>)
                    | (Inl enrollError, tbl) \<Rightarrow>
                        if message enrollError = ''User is already enrolled in this class''
                        then
                          (Inr (createApiResponse
                                  (AlreadyEnrolled ''You are already enrolled in this class''
                                     clsId clsName)
                                  ''Already enrolled'' OK),
                           st1\<lparr>enrollments := tbl\<rparr>)
                        else (Inl enrollError, st1\<lparr>enrollments := tbl\<rparr>)))
          else if action = ''unenroll'' then
            (Inr (createErrorResponse ''Unenrollment not yet implemented'' NOT_IMPLEMENTED),
             st1)
          else (Inr (createErrorResponse ''Invalid action'' BAD_REQUEST), st1))))))"

definition POST ::
    "env \<Rightarrow> string option \<Rightarrow> NextRequest \<Rightarrow> app_state \<Rightarrow> NextResponse \<times> app_state" where
  "POST ev session request st =
     (case POST_try ev session request st of
        (Inr response, st') \<Rightarrow> (response, st')
      | (Inl error, st') \<Rightarrow>
          if message error = ''Authentication required''
          then (createErrorResponse ''Authentication required'' UNAUTHORIZED, st')
          else (createErrorResponse ''Enrollment failed. Please try again.''
                  INTERNAL_SERVER_ERROR, st'))"

definition DELETE_try ::
    "env \<Rightarrow> string option \<Rightarrow> NextRequest \<Rightarrow> app_state
      \<Rightarrow> (js_error + NextResponse) \<times> app_state" where
  "DELETE_try ev session request st =
     (if \<not> validateMethod request [''DELETE''] then
        (Inr (createErrorResponse ''Method not allowed'' BAD_REQUEST), st)
      else if \<not> validateContentType request ''application/json'' then
        (Inr (createErrorResponse ''Invalid content type'' BAD_REQUEST), st)
      else
     (case requireAuthentication session of
        Inl e \<Rightarrow> (Inl e, st)
      | Inr userEmail \<Rightarrow>
     (case parseRequestBody request 512 of
        Inl e \<Rightarrow> (Inl e, st)
      | Inr b \<Rightarrow>
     (case property b ''className'' of
        Some (JString (c # cs)) \<Rightarrow>
          (case unenrollFromClass (scanFault ev) (putFault ev) (nowIso ev) userEmail (c # cs)
                  (enrollments st) of
             (Inl e, tbl) \<Rightarrow> (Inl e, st\<lparr>enrollments := tbl\<rparr>)
           | (Inr u, tbl) \<Rightarrow>
               (Inr (createApiResponse
                       (Unenrolled ''Successfully unenrolled from class'' (c # cs))
                       ''Unenrollment successful'' OK),
                st\<lparr>enrollments := tbl\<rparr>))
      | _ \<Rightarrow> (Inr (createErrorResponse ''Class name is required'' BAD_REQUEST), st)))))"

definition DELETE ::
    "env \<Rightarrow> string option \<Rightarrow> NextRequest \<Rightarrow> app_state \<Rightarrow> NextResponse \<times> app_state" where
  "DELETE ev session request st =
     (case DELETE_try ev session request st of
        (Inr response, st') \<Rightarrow> (response, st')
      | (Inl error, st') \<Rightarrow>
          if message error = ''Authentication required''
          then (createErrorResponse ''Authentication required'' UNAUTHORIZED, st')
          else (createErrorResponse ''Failed to unenroll from class. Please try again.''
                  INTERNAL_SERVER_ERROR, st'))"

subsection \<open>Sample calls\<close>

text \<open>
  Concrete inputs for the evaluations below: a fresh process (\<open>apiRateLimiter\<close> as the
  module constructs it, \<open>new RateLimiter(100, 60 * 1000)\<close>, and an empty table), the
  request the dashboard sends to enroll in class 1, the one it sends to unenroll, and two
  calls a second apart with the store answering.
\<close>

definition freshState :: app_state where
  "freshState =
     \<lparr>enrollments = [],
      apiRateLimiter = \<lparr>maxAttempts = 100, windowMs = 60000, attempts = Map.empty\<rparr>\<rparr>"

definition enrollRequest :: NextRequest where
  "enrollRequest =
     \<lparr>httpMethod = ''POST'', contentType = Some ''application/json'', contentLength = Some 33,
      forwardedFor = None, realIP = None, cfConnectingIP = None, ip = Some ''127.0.0.1'',
      jsonBody = Some (JObject [(''classId'', JString ''1''), (''action'', JString ''enroll'')])\<rparr>"

definition unenrollRequest :: NextRequest where
  "unenrollRequest =
     \<lparr>httpMethod = ''DELETE'', contentType = Some ''application/json'', contentLength = Some 35,
      forwardedFor = None, realIP = None, cfConnectingIP = None, ip = Some ''127.0.0.1'',
      jsonBody = Some (JObject [(''className'', JString ''Web Development 101'')])\<rparr>"

definition firstCall :: env where
  "firstCall =
     \<lparr>limiterNow = 1000, nowMs = 1000, nowIso = ''2025-01-01T00:00:01.000Z'',
      scanFault = None, putFault = None, slot = 0, zodMessage = []\<rparr>"

definition secondCall :: env where
  "secondCall =
     \<lparr>limiterNow = 2000, nowMs = 2000, nowIso = ''2025-01-01T00:00:02.000Z'',
      scanFault = None, putFault = None, slot = 1, zodMessage = []\<rparr>"

definition twoEnrollments :: "Enrollment list" where
  "twoEnrollments =
     [\<lparr>enrollmentId = ''a@b.co-1-1000'', email = ''a@b.co'',
       className = Str ''Web Development 101'', classId = ''1'',
       enrolledAt = ''2025-01-01T00:00:01.000Z'', status = active, updatedAt = None\<rparr>,
      \<lparr>enrollmentId = ''a@b.co-2-2000'', email = ''a@b.co'',
       className = Str ''Database Basics'', classId = ''2'',
       enrolledAt = ''2025-01-01T00:00:02.000Z'', status = active, updatedAt = None\<rparr>]"

text \<open>A users table with one record.\<close>

definition aliceOnly :: "User list" where
  "aliceOnly =
     [\<lparr>User.email = ''alice@example.com'', passwordHash = ''hash-1'',
       User.name = ''Alice'', studentId = ''STU-12345'',
       createdAt = ''2025-01-01T00:00:00.000Z'',
       User.updatedAt = ''2025-01-01T00:00:00.000Z''\<rparr>]"

text \<open>A table whose one record is dropped and carries the id that the first sample call
  generates for the same user and class.\<close>

definition droppedOnly :: "Enrollment list" where
  "droppedOnly =
     [\<lparr>enrollmentId = ''a@b.co-1-1000'', email = ''a@b.co'',
       className = Str ''Web Development 101'', classId = ''1'',
       enrolledAt = ''2025-01-01T00:00:01.000Z'', status = dropped,
       updatedAt = Some ''2025-01-01T00:00:01.500Z''\<rparr>]"

section \<open>Properties of the password rubric\<close>

lemma award_step:
  "case_prod g (if c then ((s::int) + 1, f) else (s, f @ [m]))
     = g (s + of_bool c) (if c then f else f @ [m])"
  by simp

lemma penalty_step:
  "case_prod g (if c then ((s::int) - d, f @ [m]) else (s, f))
     = g (s - d * of_bool c) (if c then f @ [m] else f)"
  by simp

lemma length_step:
  "case_prod g (if n < (8::nat) then (0::int, [m]) else if n \<ge> 8 then (1, []) else (0, []))
     = g (of_bool (n \<ge> 8)) (if n < 8 then [m] else [])"
  by simp

lemma rubric_empty: "rubric hasRepeat [] = 0"
  by (simp add: rubric_def hasLower_def hasUpper_def hasDigit_def hasSpecial_def
      hasWeakPattern_def weakPatterns_def toLowerCase_def)

lemma strength_is_rubric:
  "isValid (validatePasswordStrength password)
     = (rubric hasRepeat password \<ge> 4 \<and> length password \<ge> 8)
   \<and> score (validatePasswordStrength password) = max 0 (rubric hasRepeat password)"
proof (cases "password = []")
  case True
  then show ?thesis
    by (simp add: validatePasswordStrength_def rubric_empty)
next
  case False
  then show ?thesis
    by (simp add: validatePasswordStrength_def rubric_def Let_def
        award_step penalty_step length_step)
qed

lemma strength_examples:
  "\<not> isValid (validatePasswordStrength ''weak'')"
  "\<not> isValid (validatePasswordStrength ''NOLOWERCASE123!'')"
  "\<not> isValid (validatePasswordStrength ''nonumbers123'')"
  "isValid (validatePasswordStrength ''StrongPassword123!'')"
  by code_simp+

lemma hasRepeat_anyCharRepeats:
  "set password \<inter> set lineTerminators = {} \<Longrightarrow> hasRepeat password = anyCharRepeats password"
  by (induction password rule: hasRepeat.induct) auto

text \<open>Away from line terminators the function is the rubric with the repeat penalty
  for any character.\<close>

lemma strength_without_line_terminators:
  assumes "set password \<inter> set lineTerminators = {}"
  shows "isValid (validatePasswordStrength password)
           = (rubric anyCharRepeats password \<ge> 4 \<and> length password \<ge> 8)
     \<and> score (validatePasswordStrength password) = max 0 (rubric anyCharRepeats password)"
  using strength_is_rubric [of password] hasRepeat_anyCharRepeats [OF assms]
  by (simp add: rubric_def)

text \<open>
  C8: the rubric takes one point off when any character repeats three or more times in a
  row. The function tests \<open>/(.)\1{2,}/\<close>, whose dot does not match a line terminator, so
  a run of line feeds goes unpenalised: evaluated on \<open>xy7!klmp\<close> followed by three line
  feeds, the function gives score 4 and \<open>isValid = true\<close>, where the rubric gives 3 points
  and so rejects the password.
\<close>

theorem strength_line_feed_repeat:
  "isValid (validatePasswordStrength (''xy7!klmp'' @ [CHR 0x0A, CHR 0x0A, CHR 0x0A]))
   \<and> score (validatePasswordStrength (''xy7!klmp'' @ [CHR 0x0A, CHR 0x0A, CHR 0x0A])) = 4
   \<and> rubric anyCharRepeats (''xy7!klmp'' @ [CHR 0x0A, CHR 0x0A, CHR 0x0A]) = 3"
  by code_simp

section \<open>Properties of the rate limiters\<close>

lemma checkRateLimit_fresh:
  "m ident = None \<Longrightarrow>
   checkRateLimit now ident maxA win m
     = (True, m(ident \<mapsto> \<lparr>count = 1, lastAttempt = now\<rparr>))"
  by (simp add: checkRateLimit_def)

lemma checkRateLimit_admit:
  "m ident = Some a \<Longrightarrow> now - lastAttempt a \<le> win \<Longrightarrow> count a < maxA \<Longrightarrow>
   checkRateLimit now ident maxA win m
     = (True, m(ident \<mapsto> \<lparr>count = count a + 1, lastAttempt = now\<rparr>))"
  by (simp add: checkRateLimit_def)

lemma checkRateLimit_reject:
  "m ident = Some a \<Longrightarrow> now - lastAttempt a \<le> win \<Longrightarrow> maxA \<le> count a \<Longrightarrow>
   checkRateLimit now ident maxA win m = (False, m)"
  by (simp add: checkRateLimit_def)

lemma checkRateLimit_expired:
  "m ident = Some a \<Longrightarrow> win < now - lastAttempt a \<Longrightarrow>
   checkRateLimit now ident maxA win m
     = (True, m(ident \<mapsto> \<lparr>count = 1, lastAttempt = now\<rparr>))"
  by (simp add: checkRateLimit_def)

text \<open>
  The window C2 describes, anchored at the first request and expiring at
  \<open>now + windowMs\<close>, is what the class \<open>RateLimiter\<close> keeps: an admitted call inside the
  window leaves \<open>resetTime\<close> where the first call put it.
\<close>

lemma isAllowed_fixed_window:
  "(attempts rl ident = None \<longrightarrow>
      isAllowed now ident rl
        = (True, rl\<lparr>attempts := (attempts rl)(ident \<mapsto>
                     \<lparr>hits = 1, resetTime = now + windowMs rl\<rparr>)\<rparr>))
   \<and> (attempts rl ident = Some w \<and> now \<le> resetTime w \<and> hits w < maxAttempts rl \<longrightarrow>
      isAllowed now ident rl
        = (True, rl\<lparr>attempts := (attempts rl)(ident \<mapsto>
                     w\<lparr>hits := hits w + 1\<rparr>)\<rparr>))
   \<and> (attempts rl ident = Some w \<and> now \<le> resetTime w \<and> maxAttempts rl \<le> hits w \<longrightarrow>
      isAllowed now ident rl = (False, rl))
   \<and> (attempts rl ident = Some w \<and> resetTime w < now \<longrightarrow>
      isAllowed now ident rl
        = (True, rl\<lparr>attempts := (attempts rl)(ident \<mapsto>
                     \<lparr>hits = 1, resetTime = now + windowMs rl\<rparr>)\<rparr>))"
  by (simp add: isAllowed_def)

text \<open>
  C2, as stated, anchors the window of \<open>checkRateLimit\<close> at the first request. With
  \<open>maxAttempts = 3\<close> and \<open>windowMs = 100\<close>, calls at 0 and 60 are admitted; the call at 120
  comes after the window of the first request has expired (\<open>0 + 100 < 120\<close>) and, by the
  claim, resets the count to 1, so that the call at 130 is admitted as the second of a new
  window. The source compares with \<open>lastAttempt\<close>, which every admitted call moves: at 120
  the count goes to 3, and the call at 130 is refused. The fixed window of \<open>RateLimiter\<close>
  admits all four.
\<close>

theorem checkRateLimit_anchor_counterexample:
  "(0::int) + 100 < 120
   \<and> fst (checkRateLimitRun ''u'' 3 100 [0, 60, 120, 130] Map.empty)
       = [True, True, True, False]
   \<and> map_option count (snd (checkRateLimitRun ''u'' 3 100 [0, 60, 120] Map.empty) ''u'')
       = Some 3
   \<and> fst (isAllowedRun ''u'' [0, 60, 120, 130]
            \<lparr>maxAttempts = 3, windowMs = 100, attempts = Map.empty\<rparr>)
       = [True, True, True, True]"
  by (simp add: checkRateLimit_def isAllowed_def)

text \<open>
  C2 (amended): for every ident, \<open>checkRateLimit\<close> keeps a count and the time of the
  last admitted call. The first call stores count 1 and returns true. A later call no more
  than \<open>windowMs\<close> after the last admitted call increments the count, moves the window to
  start at \<open>now\<close> and returns true while the count is below \<open>maxAttempts\<close>; it returns false
  and changes nothing once the count has reached \<open>maxAttempts\<close>. A call more than
  \<open>windowMs\<close> after the last admitted call resets the count to 1 and returns true.
\<close>

theorem checkRateLimit_window:
  "(m ident = None \<longrightarrow>
      checkRateLimit now ident maxA win m
        = (True, m(ident \<mapsto> \<lparr>count = 1, lastAttempt = now\<rparr>)))
   \<and> (m ident = Some a \<and> now - lastAttempt a \<le> win \<and> count a < maxA \<longrightarrow>
      checkRateLimit now ident maxA win m
        = (True, m(ident \<mapsto> \<lparr>count = count a + 1, lastAttempt = now\<rparr>)))
   \<and> (m ident = Some a \<and> now - lastAttempt a \<le> win \<and> maxA \<le> count a \<longrightarrow>
      checkRateLimit now ident maxA win m = (False, m))
   \<and> (m ident = Some a \<and> win < now - lastAttempt a \<longrightarrow>
      checkRateLimit now ident maxA win m
        = (True, m(ident \<mapsto> \<lparr>count = 1, lastAttempt = now\<rparr>)))"
  by (simp add: checkRateLimit_fresh checkRateLimit_admit checkRateLimit_reject
      checkRateLimit_expired)

theorem checkRateLimit_window_witness:
  "checkRateLimit 7 ''u'' 3 100 Map.empty
     = (True, [''u'' \<mapsto> \<lparr>count = 1, lastAttempt = 7\<rparr>])
   \<and> checkRateLimit 60 ''u'' 3 100 [''u'' \<mapsto> \<lparr>count = 2, lastAttempt = 7\<rparr>]
     = (True, [''u'' \<mapsto> \<lparr>count = 3, lastAttempt = 60\<rparr>])
   \<and> checkRateLimit 90 ''u'' 3 100 [''u'' \<mapsto> \<lparr>count = 3, lastAttempt = 60\<rparr>]
     = (False, [''u'' \<mapsto> \<lparr>count = 3, lastAttempt = 60\<rparr>])
   \<and> checkRateLimit 161 ''u'' 3 100 [''u'' \<mapsto> \<lparr>count = 3, lastAttempt = 60\<rparr>]
     = (True, [''u'' \<mapsto> \<lparr>count = 1, lastAttempt = 161\<rparr>])"
  using checkRateLimit_window
      [where m = Map.empty and ident = "''u''" and now = 7 and maxA = 3 and win = 100]
    checkRateLimit_window
      [where m = "[''u'' \<mapsto> \<lparr>count = 2, lastAttempt = 7\<rparr>]" and ident = "''u''"
         and a = "\<lparr>count = 2, lastAttempt = 7\<rparr>" and now = 60 and maxA = 3 and win = 100]
    checkRateLimit_window
      [where m = "[''u'' \<mapsto> \<lparr>count = 3, lastAttempt = 60\<rparr>]" and ident = "''u''"
         and a = "\<lparr>count = 3, lastAttempt = 60\<rparr>" and now = 90 and maxA = 3 and win = 100]
    checkRateLimit_window
      [where m = "[''u'' \<mapsto> \<lparr>count = 3, lastAttempt = 60\<rparr>]" and ident = "''u''"
         and a = "\<lparr>count = 3, lastAttempt = 60\<rparr>" and now = 161 and maxA = 3 and win = 100]
  by simp

text \<open>
  C3: for a fresh ident with \<open>maxAttempts = 3\<close> and \<open>windowMs = 60000\<close>, four calls at
  non-decreasing times inside the window of the first return true, true, true, false;
  \<open>clearRateLimit\<close> then removes the counter, and the next call, at any time, returns true.
\<close>

theorem checkRateLimit_three_then_clear:
  assumes "m ident = None"
    and "t1 \<le> t2" and "t2 \<le> t3" and "t3 \<le> t4" and "t4 \<le> t1 + 60000"
  shows "fst (checkRateLimitRun ident 3 60000 [t1, t2, t3, t4] m)
           = [True, True, True, False]
     \<and> clearRateLimit ident
          (snd (checkRateLimitRun ident 3 60000 [t1, t2, t3, t4] m)) ident = None
     \<and> fst (checkRateLimit t5 ident 3 60000
          (clearRateLimit ident
             (snd (checkRateLimitRun ident 3 60000 [t1, t2, t3, t4] m)))) = True"
  using assms by (simp add: checkRateLimit_def clearRateLimit_def)

theorem checkRateLimit_three_then_clear_witness:
  "fst (checkRateLimitRun ''test-user@example.com'' 3 60000 [1000, 1001, 1002, 1003] Map.empty)
     = [True, True, True, False]
   \<and> fst (checkRateLimit 1004 ''test-user@example.com'' 3 60000
        (clearRateLimit ''test-user@example.com''
           (snd (checkRateLimitRun ''test-user@example.com'' 3 60000
                   [1000, 1001, 1002, 1003] Map.empty)))) = True"
  using checkRateLimit_three_then_clear
    [where m = Map.empty and ident = "''test-user@example.com''"
       and ?t1.0 = 1000 and ?t2.0 = 1001 and ?t3.0 = 1002 and ?t4.0 = 1003 and ?t5.0 = 1004]
  by simp

section \<open>Properties of the repository\<close>

subsection \<open>Reads\<close>

lemma getUserEnrollments_ok:
  "getUserEnrollments None em tbl
     = filter (\<lambda>x. email x = normalizeEmail em \<and> status x = active) tbl"
  by (simp add: getUserEnrollments_def scan_def conj_commute)

lemma isUserEnrolledInClass_iff:
  "isUserEnrolledInClass fault em cid tbl
     = (\<exists>x \<in> set (getUserEnrollments fault em tbl). classId x = cid)"
  by (simp add: isUserEnrolledInClass_def list_ex_iff)

text \<open>
  C10: the read operations return a plain value on every path (no error value in their
  types), and when the store call throws, whatever the exception, \<open>getUserEnrollments\<close>
  returns the empty list, \<open>isUserEnrolledInClass\<close> returns false and \<open>getUserByEmail\<close>
  returns null: the same answers as on an empty table, so a caller cannot tell a storage
  error from "no records" or "no such user"; the enrollment check before an enroll reports
  not-enrolled.
\<close>

theorem reads_absorb_store_failure:
  "getUserEnrollments (Some e) em tbl = []
   \<and> isUserEnrolledInClass (Some e) em cid tbl = False
   \<and> getUserByEmail (Some e) em users = None
   \<and> getUserEnrollments (Some e) em tbl = getUserEnrollments None em []
   \<and> isUserEnrolledInClass (Some e) em cid tbl = isUserEnrolledInClass None em cid []
   \<and> getUserByEmail (Some e) em users = getUserByEmail None em []"
  by (simp add: getUserEnrollments_def isUserEnrolledInClass_def getUserByEmail_def
      scan_def getItem_def split: sum.splits)

theorem reads_absorb_store_failure_witness:
  "isUserEnrolledInClass None ''a@b.co'' ''1''
     [\<lparr>enrollmentId = ''a@b.co-1-1000'', email = ''a@b.co'',
       className = Str ''Web Development 101'', classId = ''1'', enrolledAt = ''t0'',
       status = active, updatedAt = None\<rparr>]
   \<and> \<not> isUserEnrolledInClass (Some (Error ''socket hang up'')) ''a@b.co'' ''1''
     [\<lparr>enrollmentId = ''a@b.co-1-1000'', email = ''a@b.co'',
       className = Str ''Web Development 101'', classId = ''1'', enrolledAt = ''t0'',
       status = active, updatedAt = None\<rparr>]"
proof -
  have "isUserEnrolledInClass None ''a@b.co'' ''1''
     [\<lparr>enrollmentId = ''a@b.co-1-1000'', email = ''a@b.co'',
       className = Str ''Web Development 101'', classId = ''1'', enrolledAt = ''t0'',
       status = active, updatedAt = None\<rparr>]"
    by code_simp
  with reads_absorb_store_failure [where e = "Error ''socket hang up''" and em = "''a@b.co''"
      and cid = "''1''"]
  show ?thesis by simp
qed

subsection \<open>Creating a user\<close>

lemma set_insertAt: "set (insertAt n x xs) = insert x (set xs)"
proof -
  have "set (take n xs) \<union> set (drop n xs) = set xs"
    by (metis append_take_drop_id set_append)
  then show ?thesis
    by (auto simp: insertAt_def)
qed

lemma map_insertAt: "map f (insertAt n x xs) = insertAt n (f x) (map f xs)"
  by (simp add: insertAt_def take_map drop_map)

lemma distinct_insertAt: "distinct (insertAt n x xs) = (x \<notin> set xs \<and> distinct xs)"
proof -
  have middle: "distinct (ys @ x # zs) = (x \<notin> set (ys @ zs) \<and> distinct (ys @ zs))"
    for ys zs :: "'a list"
    by auto
  show ?thesis
    by (simp only: insertAt_def middle append_take_drop_id)
qed

lemma filter_insertAt_other:
  "P x \<Longrightarrow> filter P xs = [] \<Longrightarrow> filter P (insertAt n x xs) = [x]"
proof -
  assume px: "P x" and none: "filter P xs = []"
  have "filter P (take n xs) @ filter P (drop n xs) = filter P xs"
    by (metis append_take_drop_id filter_append)
  with none have "filter P (take n xs) = []" "filter P (drop n xs) = []"
    by simp_all
  with px show ?thesis
    by (simp add: insertAt_def)
qed

lemma createUser_call_valid:
  assumes "validateEmail em = Inr ()" "validateName nm = Inr ()"
    "validateStudentId sid = Inr ()" "pw \<noteq> []"
  shows "createUser_call now em pw nm sid
           = Await (PutCommand \<lparr>User.email = normalizeEmail em, passwordHash = pw,
                                User.name = trim nm, studentId = trim sid,
                                createdAt = now, User.updatedAt = now\<rparr> True)
               (\<lambda>answer. case answer of
                            Inl e \<Rightarrow> Return (Inl (handleDynamoDBError e))
                          | Inr _ \<Rightarrow> Return (Inr \<lparr>User.email = normalizeEmail em,
                                passwordHash = pw, User.name = trim nm, studentId = trim sid,
                                createdAt = now, User.updatedAt = now\<rparr>))"
  using assms by (simp add: createUser_call_def Let_def)

text \<open>The call awaits at most one command, a put with the condition set, for a record
  whose key is the normalized email; whatever comes back, it then returns.\<close>

lemma createUser_call_shape:
  "(\<exists>e. createUser_call now em pw nm sid = Return (Inl e))
   \<or> (\<exists>u k. createUser_call now em pw nm sid = Await (PutCommand u True) k
          \<and> User.email u = normalizeEmail em
          \<and> (\<forall>answer. \<exists>r. k answer = Return r))"
proof (cases "validateEmail em = Inr () \<and> validateName nm = Inr ()
              \<and> validateStudentId sid = Inr () \<and> pw \<noteq> []")
  case True
  then have "createUser_call now em pw nm sid
           = Await (PutCommand \<lparr>User.email = normalizeEmail em, passwordHash = pw,
                                User.name = trim nm, studentId = trim sid,
                                createdAt = now, User.updatedAt = now\<rparr> True)
               (\<lambda>answer. case answer of
                            Inl e \<Rightarrow> Return (Inl (handleDynamoDBError e))
                          | Inr _ \<Rightarrow> Return (Inr \<lparr>User.email = normalizeEmail em,
                                passwordHash = pw, User.name = trim nm, studentId = trim sid,
                                createdAt = now, User.updatedAt = now\<rparr>))"
    by (simp add: createUser_call_valid)
  moreover have "\<forall>answer :: js_error + User reply.
      \<exists>r. (case answer of
              Inl e \<Rightarrow> Return (Inl (handleDynamoDBError e))
            | Inr _ \<Rightarrow> Return (Inr \<lparr>User.email = normalizeEmail em,
                                passwordHash = pw, User.name = trim nm, studentId = trim sid,
                                createdAt = now, User.updatedAt = now\<rparr>))
          = (Return r :: (User, DatabaseError + User) call)"
    by (auto split: sum.splits)
  ultimately have "\<exists>u k. createUser_call now em pw nm sid = Await (PutCommand u True) k
          \<and> User.email u = normalizeEmail em
          \<and> (\<forall>answer. \<exists>r. k answer = Return r)"
    by (intro exI conjI) (assumption, simp, assumption)
  then show ?thesis ..
next
  case False
  then show ?thesis
    by (auto simp: createUser_call_def split: sum.splits)
qed

lemma createUser_invalid:
  assumes "\<not> (validateEmail em = Inr () \<and> validateName nm = Inr ()
              \<and> validateStudentId sid = Inr () \<and> pw \<noteq> [])"
  shows "snd (createUser fault pos now em pw nm sid users) = users"
  using assms by (auto simp: createUser_def createUser_call_def split: sum.splits)

lemma createUser_conflict:
  assumes "validateEmail em = Inr ()" "validateName nm = Inr ()"
    "validateStudentId sid = Inr ()" "pw \<noteq> []"
    "list_ex (\<lambda>u. User.email u = normalizeEmail em) users"
  shows "createUser None pos now em pw nm sid users
           = (Inl (ConflictError ''Resource already exists or condition not met''), users)"
  using assms(5)
  by (simp add: createUser_def createUser_call_valid [OF assms(1-4)] send_def
      putIfAbsent_def handleDynamoDBError_def conditionalCheckFailed_def)

lemma createUser_created:
  assumes "validateEmail em = Inr ()" "validateName nm = Inr ()"
    "validateStudentId sid = Inr ()" "pw \<noteq> []"
    "\<not> list_ex (\<lambda>u. User.email u = normalizeEmail em) users"
  shows "createUser None pos now em pw nm sid users
           = (Inr \<lparr>User.email = normalizeEmail em, passwordHash = pw,
                    User.name = trim nm, studentId = trim sid,
                    createdAt = now, User.updatedAt = now\<rparr>,
              insertAt pos \<lparr>User.email = normalizeEmail em, passwordHash = pw,
                    User.name = trim nm, studentId = trim sid,
                    createdAt = now, User.updatedAt = now\<rparr> users)"
  using assms(5)
  by (simp add: createUser_def createUser_call_valid [OF assms(1-4)] send_def
      putIfAbsent_def)

lemma createUser_table:
  "snd (createUser fault pos now em pw nm sid users) = users
   \<or> (\<exists>u. snd (createUser fault pos now em pw nm sid users) = insertAt pos u users
        \<and> User.email u = normalizeEmail em
        \<and> \<not> list_ex (\<lambda>x. User.email x = normalizeEmail em) users)"
proof (cases "validateEmail em = Inr () \<and> validateName nm = Inr ()
              \<and> validateStudentId sid = Inr () \<and> pw \<noteq> []")
  case True
  then show ?thesis
    by (auto simp: createUser_def createUser_call_valid send_def putIfAbsent_def
        split: option.splits)
next
  case False
  then show ?thesis
    by (simp add: createUser_invalid)
qed

lemma createUser_distinct:
  assumes "distinct (map User.email users)"
  shows "distinct (map User.email (snd (createUser fault pos now em pw nm sid users)))"
  using createUser_table [of fault pos now em pw nm sid users] assms
  by (fastforce simp: list_ex_iff map_insertAt distinct_insertAt)

text \<open>
  C7, as stated, has creation fail with \<open>Conflict\<close> whenever a record for the normalized
  email exists. The conditional write is reached only after validation and answered only
  by a store that is up: with the record of \<open>alice@example.com\<close> in the table, a creation
  for that email with a one-letter name ends in the \<open>INTERNAL_ERROR\<close> that
  \<open>handleDynamoDBError\<close> makes of the validation error, and one whose put the store
  throttles ends in \<open>RATE_LIMIT\<close>.
\<close>

theorem createUser_conflict_counterexample:
  "list_ex (\<lambda>u. User.email u = normalizeEmail ''alice@example.com'') aliceOnly
   \<and> createUser None 0 ''2025-01-01T00:00:05.000Z'' ''alice@example.com'' ''hash-2'' ''A''
        ''STU-99999'' aliceOnly
     = (Inl (newDatabaseError ''Internal server error'' ''INTERNAL_ERROR'' 500), aliceOnly)
   \<and> createUser
        (Some \<lparr>js_error.name = ''ProvisionedThroughputExceededException'',
               message = ''throttled''\<rparr>)
        0 ''2025-01-01T00:00:05.000Z'' ''alice@example.com'' ''hash-2'' ''Alice Two''
        ''STU-99999'' aliceOnly
     = (Inl (newDatabaseError ''Service temporarily unavailable'' ''RATE_LIMIT'' 429),
        aliceOnly)"
  by code_simp

text \<open>
  C7 (amended): \<open>createUser\<close> is an atomic create-if-absent keyed on the normalized email.
  It sends the store at most one command, a put of the record for the normalized email
  with the condition \<open>attribute_not_exists(email)\<close>, and returns on whatever comes back:
  no read precedes the write. For input that passes validation, when the store answers:
  if a record for the normalized email exists, creation fails with the \<open>ConflictError\<close>
  (code \<open>CONFLICT\<close>, status 409) and the table is unchanged; otherwise the new record is
  added and returned. For every input and whatever the store does, a table with one
  record per email keeps one record per email.
\<close>

theorem createUser_create_if_absent:
  "((\<exists>e. createUser_call now em pw nm sid = Return (Inl e))
      \<or> (\<exists>u k. createUser_call now em pw nm sid = Await (PutCommand u True) k
             \<and> User.email u = normalizeEmail em
             \<and> (\<forall>answer. \<exists>r. k answer = Return r)))
   \<and> (distinct (map User.email users) \<longrightarrow>
        distinct (map User.email (snd (createUser fault pos now em pw nm sid users))))
   \<and> (validateEmail em = Inr () \<and> validateName nm = Inr () \<and> validateStudentId sid = Inr ()
        \<and> pw \<noteq> [] \<longrightarrow>
        (if list_ex (\<lambda>u. User.email u = normalizeEmail em) users
         then createUser None pos now em pw nm sid users
                = (Inl (ConflictError ''Resource already exists or condition not met''),
                   users)
         else createUser None pos now em pw nm sid users
                = (Inr \<lparr>User.email = normalizeEmail em, passwordHash = pw,
                         User.name = trim nm, studentId = trim sid,
                         createdAt = now, User.updatedAt = now\<rparr>,
                   insertAt pos \<lparr>User.email = normalizeEmail em, passwordHash = pw,
                         User.name = trim nm, studentId = trim sid,
                         createdAt = now, User.updatedAt = now\<rparr> users)))"
  using createUser_call_shape [of now em pw nm sid]
    createUser_distinct [of users fault pos now em pw nm sid]
    createUser_conflict [of em nm sid pw users pos now]
    createUser_created [of em nm sid pw users pos now]
  by simp

theorem createUser_create_if_absent_witness:
  "createUser None 0 ''2025-01-01T00:00:00.000Z'' ''Alice@Example.com'' ''hash-1'' ''Alice''
       ''STU-12345'' []
     = (Inr \<lparr>User.email = ''alice@example.com'', passwordHash = ''hash-1'',
             User.name = ''Alice'', studentId = ''STU-12345'',
             createdAt = ''2025-01-01T00:00:00.000Z'',
             User.updatedAt = ''2025-01-01T00:00:00.000Z''\<rparr>, aliceOnly)
   \<and> createUser None 0 ''2025-01-01T00:00:05.000Z'' ''alice@example.com'' ''hash-2''
        ''Alice Two'' ''STU-99999'' aliceOnly
     = (Inl (ConflictError ''Resource already exists or condition not met''), aliceOnly)
   \<and> distinct (map User.email
        (snd (createUser None 0 ''2025-01-01T00:00:05.000Z'' ''alice@example.com'' ''hash-2''
                ''Alice Two'' ''STU-99999'' aliceOnly)))"
proof -
  have v: "validateEmail ''Alice@Example.com'' = Inr ()" "validateName ''Alice'' = Inr ()"
    "validateStudentId ''STU-12345'' = Inr ()"
    "validateEmail ''alice@example.com'' = Inr ()" "validateName ''Alice Two'' = Inr ()"
    "validateStudentId ''STU-99999'' = Inr ()"
    by code_simp+
  have n: "normalizeEmail ''Alice@Example.com'' = ''alice@example.com''"
    "normalizeEmail ''alice@example.com'' = ''alice@example.com''"
    "trim ''Alice'' = ''Alice''" "trim ''STU-12345'' = ''STU-12345''"
    by code_simp+
  have keyed: "distinct (map User.email aliceOnly)"
    by (simp add: aliceOnly_def)
  note first = createUser_create_if_absent
      [where users = "[]" and pos = 0 and now = "''2025-01-01T00:00:00.000Z''"
         and em = "''Alice@Example.com''" and pw = "''hash-1''" and nm = "''Alice''"
         and sid = "''STU-12345''"]
  note second = createUser_create_if_absent
      [where users = aliceOnly and fault = None and pos = 0
         and now = "''2025-01-01T00:00:05.000Z''" and em = "''alice@example.com''"
         and pw = "''hash-2''" and nm = "''Alice Two''" and sid = "''STU-99999''"]
  from first v n have created:
    "createUser None 0 ''2025-01-01T00:00:00.000Z'' ''Alice@Example.com'' ''hash-1'' ''Alice''
       ''STU-12345'' []
     = (Inr \<lparr>User.email = ''alice@example.com'', passwordHash = ''hash-1'',
             User.name = ''Alice'', studentId = ''STU-12345'',
             createdAt = ''2025-01-01T00:00:00.000Z'',
             User.updatedAt = ''2025-01-01T00:00:00.000Z''\<rparr>, aliceOnly)"
    by (simp add: aliceOnly_def insertAt_def)
  from second v n have refused:
    "createUser None 0 ''2025-01-01T00:00:05.000Z'' ''alice@example.com'' ''hash-2''
        ''Alice Two'' ''STU-99999'' aliceOnly
     = (Inl (ConflictError ''Resource already exists or condition not met''), aliceOnly)"
    by (simp add: aliceOnly_def)
  from second keyed have kept:
    "distinct (map User.email
        (snd (createUser None 0 ''2025-01-01T00:00:05.000Z'' ''alice@example.com'' ''hash-2''
                ''Alice Two'' ''STU-99999'' aliceOnly)))"
    by blast
  from created refused kept show ?thesis
    by blast
qed

subsection \<open>Two creations in flight\<close>

lemma interleave_returned:
  "interleave key sched (Return r) (Return s) tbl = ((Return r, Return s), tbl)"
  by (induction sched) auto

lemma interleave_right:
  assumes "\<forall>answer. \<exists>s. k answer = Return s" and "list_ex (\<lambda>t. \<not> fst t) sched"
  shows "\<exists>pos. interleave key sched (Return r) (Await cmd k) tbl
            = ((Return r, k (fst (send key None pos cmd tbl))),
               snd (send key None pos cmd tbl))"
  using assms(2)
proof (induction sched)
  case Nil
  then show ?case by simp
next
  case (Cons turn sched)
  show ?case
  proof (cases "fst turn")
    case True
    with Cons.prems have "list_ex (\<lambda>t. \<not> fst t) sched"
      by simp
    from Cons.IH [OF this] True show ?thesis
      by simp
  next
    case False
    obtain s where "k (fst (send key None (snd turn) cmd tbl)) = Return s"
      using assms(1) by blast
    with False have "interleave key (turn # sched) (Return r) (Await cmd k) tbl
            = ((Return r, k (fst (send key None (snd turn) cmd tbl))),
               snd (send key None (snd turn) cmd tbl))"
      by (simp add: split_def interleave_returned)
    then show ?thesis by blast
  qed
qed

lemma interleave_left:
  assumes "\<forall>answer. \<exists>r. k answer = Return r" and "list_ex fst sched"
  shows "\<exists>pos. interleave key sched (Await cmd k) (Return s) tbl
            = ((k (fst (send key None pos cmd tbl)), Return s),
               snd (send key None pos cmd tbl))"
  using assms(2)
proof (induction sched)
  case Nil
  then show ?case by simp
next
  case (Cons turn sched)
  show ?case
  proof (cases "fst turn")
    case False
    with Cons.prems have "list_ex fst sched"
      by simp
    from Cons.IH [OF this] False show ?thesis
      by simp
  next
    case True
    obtain r where "k (fst (send key None (snd turn) cmd tbl)) = Return r"
      using assms(1) by blast
    with True have "interleave key (turn # sched) (Await cmd k) (Return s) tbl
            = ((k (fst (send key None (snd turn) cmd tbl)), Return s),
               snd (send key None (snd turn) cmd tbl))"
      by (simp add: split_def interleave_returned)
    then show ?thesis by blast
  qed
qed

lemma send_put_new:
  "\<not> list_ex (\<lambda>x. key x = key item) tbl \<Longrightarrow>
   send key None pos (PutCommand item True) tbl = (Inr PutOutput, insertAt pos item tbl)"
  by (simp add: send_def putIfAbsent_def)

lemma send_put_taken:
  "list_ex (\<lambda>x. key x = key item) tbl \<Longrightarrow>
   send key None pos (PutCommand item True) tbl = (Inl conditionalCheckFailed, tbl)"
  by (simp add: send_def putIfAbsent_def)

lemma handleDynamoDBError_conflict:
  "handleDynamoDBError conditionalCheckFailed
     = ConflictError ''Resource already exists or condition not met''"
  by (simp add: handleDynamoDBError_def conditionalCheckFailed_def)

text \<open>
  Two conditional puts under one key in flight at once, on a table without the key:
  whichever the store takes first is written, and the other one is answered with the
  failed condition.
\<close>

lemma interleave_two_puts:
  assumes k1: "\<forall>answer. \<exists>r. k1 answer = Return r"
    and k2: "\<forall>answer. \<exists>s. k2 answer = Return s"
    and same: "key u2 = key u1"
    and absent: "\<not> list_ex (\<lambda>x. key x = key u1) tbl"
    and turns: "list_ex fst sched" "list_ex (\<lambda>t. \<not> fst t) sched"
  shows "\<exists>pos.
      interleave key sched (Await (PutCommand u1 True) k1) (Await (PutCommand u2 True) k2) tbl
        = ((k1 (Inr PutOutput), k2 (Inl conditionalCheckFailed)), insertAt pos u1 tbl)
      \<or> interleave key sched (Await (PutCommand u1 True) k1) (Await (PutCommand u2 True) k2) tbl
        = ((k1 (Inl conditionalCheckFailed), k2 (Inr PutOutput)), insertAt pos u2 tbl)"
proof -
  have new1: "send key None pos (PutCommand u1 True) tbl
                = (Inr PutOutput, insertAt pos u1 tbl)" for pos
    using absent by (rule send_put_new)
  have new2: "send key None pos (PutCommand u2 True) tbl
                = (Inr PutOutput, insertAt pos u2 tbl)" for pos
    using absent by (intro send_put_new) (simp add: same)
  have taken1: "send key None pos' (PutCommand u1 True) (insertAt pos u2 tbl)
                  = (Inl conditionalCheckFailed, insertAt pos u2 tbl)" for pos pos'
    by (intro send_put_taken) (simp add: list_ex_iff set_insertAt same)
  have taken2: "send key None pos' (PutCommand u2 True) (insertAt pos u1 tbl)
                  = (Inl conditionalCheckFailed, insertAt pos u1 tbl)" for pos pos'
    by (intro send_put_taken) (simp add: list_ex_iff set_insertAt same)
  from turns obtain turn rest where sched: "sched = turn # rest"
    by (cases sched) auto
  show ?thesis
  proof (cases "fst turn")
    case True
    with turns sched have later: "list_ex (\<lambda>t. \<not> fst t) rest"
      by simp
    obtain r where r: "k1 (Inr PutOutput) = Return r"
      using k1 by blast
    from interleave_right [OF k2 later, of key r "PutCommand u2 True"
        "insertAt (snd turn) u1 tbl"]
    have "interleave key rest (Return r) (Await (PutCommand u2 True) k2)
              (insertAt (snd turn) u1 tbl)
            = ((Return r, k2 (Inl conditionalCheckFailed)), insertAt (snd turn) u1 tbl)"
      by (simp add: taken2)
    with True have "interleave key sched (Await (PutCommand u1 True) k1)
              (Await (PutCommand u2 True) k2) tbl
            = ((k1 (Inr PutOutput), k2 (Inl conditionalCheckFailed)),
               insertAt (snd turn) u1 tbl)"
      by (simp add: sched new1 r)
    then show ?thesis by blast
  next
    case False
    with turns sched have later: "list_ex fst rest"
      by simp
    obtain s where s: "k2 (Inr PutOutput) = Return s"
      using k2 by blast
    from interleave_left [OF k1 later, of key "PutCommand u1 True" s
        "insertAt (snd turn) u2 tbl"]
    have "interleave key rest (Await (PutCommand u1 True) k1) (Return s)
              (insertAt (snd turn) u2 tbl)
            = ((k1 (Inl conditionalCheckFailed), Return s), insertAt (snd turn) u2 tbl)"
      by (simp add: taken1)
    with False have "interleave key sched (Await (PutCommand u1 True) k1)
              (Await (PutCommand u2 True) k2) tbl
            = ((k1 (Inl conditionalCheckFailed), k2 (Inr PutOutput)),
               insertAt (snd turn) u2 tbl)"
      by (simp add: sched new2 s)
    then show ?thesis by blast
  qed
qed

text \<open>
  Two creations for the same normalized email in flight at once, both with input that
  passes validation, on a table without the email: however the store takes their
  commands, one of them creates the record and the other fails with the
  \<open>ConflictError\<close>; the table gains the one record.
\<close>

lemma createUser_in_flight:
  assumes v1: "validateEmail em1 = Inr ()" "validateName nm1 = Inr ()"
      "validateStudentId sid1 = Inr ()" "pw1 \<noteq> []"
    and v2: "validateEmail em2 = Inr ()" "validateName nm2 = Inr ()"
      "validateStudentId sid2 = Inr ()" "pw2 \<noteq> []"
    and same: "normalizeEmail em2 = normalizeEmail em1"
    and absent: "\<not> list_ex (\<lambda>u. User.email u = normalizeEmail em1) users"
    and turns: "list_ex fst sched" "list_ex (\<lambda>t. \<not> fst t) sched"
  shows "\<exists>pos.
      interleave User.email sched (createUser_call now1 em1 pw1 nm1 sid1)
          (createUser_call now2 em2 pw2 nm2 sid2) users
        = ((Return (Inr \<lparr>User.email = normalizeEmail em1, passwordHash = pw1,
                          User.name = trim nm1, studentId = trim sid1,
                          createdAt = now1, User.updatedAt = now1\<rparr>),
            Return (Inl (ConflictError ''Resource already exists or condition not met''))),
           insertAt pos \<lparr>User.email = normalizeEmail em1, passwordHash = pw1,
                          User.name = trim nm1, studentId = trim sid1,
                          createdAt = now1, User.updatedAt = now1\<rparr> users)
      \<or> interleave User.email sched (createUser_call now1 em1 pw1 nm1 sid1)
          (createUser_call now2 em2 pw2 nm2 sid2) users
        = ((Return (Inl (ConflictError ''Resource already exists or condition not met'')),
            Return (Inr \<lparr>User.email = normalizeEmail em1, passwordHash = pw2,
                          User.name = trim nm2, studentId = trim sid2,
                          createdAt = now2, User.updatedAt = now2\<rparr>)),
           insertAt pos \<lparr>User.email = normalizeEmail em1, passwordHash = pw2,
                          User.name = trim nm2, studentId = trim sid2,
                          createdAt = now2, User.updatedAt = now2\<rparr> users)"
proof -
  let ?u1 = "\<lparr>User.email = normalizeEmail em1, passwordHash = pw1,
              User.name = trim nm1, studentId = trim sid1,
              createdAt = now1, User.updatedAt = now1\<rparr>"
  let ?u2 = "\<lparr>User.email = normalizeEmail em1, passwordHash = pw2,
              User.name = trim nm2, studentId = trim sid2,
              createdAt = now2, User.updatedAt = now2\<rparr>"
  obtain k1 where p: "createUser_call now1 em1 pw1 nm1 sid1 = Await (PutCommand ?u1 True) k1"
    and k1: "k1 = (\<lambda>answer. case answer of
                     Inl e \<Rightarrow> Return (Inl (handleDynamoDBError e))
                   | Inr _ \<Rightarrow> Return (Inr ?u1))"
    using createUser_call_valid [OF v1, of now1] by blast
  obtain k2 where q: "createUser_call now2 em2 pw2 nm2 sid2 = Await (PutCommand ?u2 True) k2"
    and k2: "k2 = (\<lambda>answer. case answer of
                     Inl e \<Rightarrow> Return (Inl (handleDynamoDBError e))
                   | Inr _ \<Rightarrow> Return (Inr ?u2))"
    using createUser_call_valid [OF v2, of now2] unfolding same by blast
  have r1: "\<forall>answer. \<exists>r. k1 answer = Return r"
    unfolding k1 by (auto split: sum.splits)
  have r2: "\<forall>answer. \<exists>s. k2 answer = Return s"
    unfolding k2 by (auto split: sum.splits)
  have ends: "k1 (Inr PutOutput) = Return (Inr ?u1)" "k2 (Inr PutOutput) = Return (Inr ?u2)"
    "k1 (Inl conditionalCheckFailed)
       = Return (Inl (ConflictError ''Resource already exists or condition not met''))"
    "k2 (Inl conditionalCheckFailed)
       = Return (Inl (ConflictError ''Resource already exists or condition not met''))"
    unfolding k1 k2 by (simp_all add: handleDynamoDBError_conflict)
  have "User.email ?u2 = User.email ?u1"
    by simp
  moreover have "\<not> list_ex (\<lambda>u. User.email u = User.email ?u1) users"
    using absent by simp
  ultimately have "\<exists>pos.
      interleave User.email sched (Await (PutCommand ?u1 True) k1)
          (Await (PutCommand ?u2 True) k2) users
        = ((k1 (Inr PutOutput), k2 (Inl conditionalCheckFailed)), insertAt pos ?u1 users)
      \<or> interleave User.email sched (Await (PutCommand ?u1 True) k1)
          (Await (PutCommand ?u2 True) k2) users
        = ((k1 (Inl conditionalCheckFailed), k2 (Inr PutOutput)), insertAt pos ?u2 users)"
    using turns by (intro interleave_two_puts [OF r1 r2])
  then show ?thesis
    unfolding p q ends .
qed

subsection \<open>Enrolling\<close>

lemma enrollInClass_fresh:
  assumes "\<not> list_ex (\<lambda>x. enrollmentId x = em @ ''-'' @ cid @ ''-'' @ showNat ms) tbl"
  shows "enrollInClass None pos ts ms em cn cid tbl
           = (Inr (), insertAt pos \<lparr>enrollmentId = em @ ''-'' @ cid @ ''-'' @ showNat ms,
                 email = normalizeEmail em, className = cn, classId = cid,
                 enrolledAt = ts, status = active, updatedAt = None\<rparr> tbl)"
  using assms by (simp add: enrollInClass_def putIfAbsent_def Let_def)

lemma enrollInClass_taken:
  assumes "list_ex (\<lambda>x. enrollmentId x = em @ ''-'' @ cid @ ''-'' @ showNat ms) tbl"
  shows "enrollInClass None pos ts ms em cn cid tbl
           = (Inl (Error ''User is already enrolled in this class''), tbl)"
  using assms
  by (simp add: enrollInClass_def putIfAbsent_def Let_def conditionalCheckFailed_def)

lemma enrollInClass_success_iff:
  "fst (enrollInClass fault pos ts ms em cn cid tbl) = Inr ()
     \<longleftrightarrow> fault = None
         \<and> \<not> list_ex (\<lambda>x. enrollmentId x = em @ ''-'' @ cid @ ''-'' @ showNat ms) tbl"
  by (simp add: enrollInClass_def putIfAbsent_def Let_def split: option.splits)

text \<open>
  C6, as stated, promises the round trip to every email with no active enrollment for the
  pair. \<open>enrollInClass\<close> writes on the condition that its generated id,
  email-classId-timestamp, is not yet a key of the table: with the dropped record
  \<open>a@b.co-1-1000\<close> in the table, the user has no active enrollment in class 1, the
  enrollment at timestamp 1000 fails with \<open>User is already enrolled in this class\<close>, and
  afterwards the user is still not enrolled.
\<close>

theorem enroll_id_taken_counterexample:
  "\<not> list_ex (\<lambda>x. email x = normalizeEmail ''a@b.co'' \<and> classId x = ''1'' \<and> status x = active)
       droppedOnly
   \<and> enrollInClass None 0 ''2025-01-01T00:00:01.000Z'' 1000 ''a@b.co''
        (Str ''Web Development 101'') ''1'' droppedOnly
     = (Inl (Error ''User is already enrolled in this class''), droppedOnly)
   \<and> getUserEnrollments None ''a@b.co'' droppedOnly = []
   \<and> \<not> isUserEnrolledInClass None ''a@b.co'' ''1'' droppedOnly"
  by code_simp

text \<open>
  C6 (amended): for every email, class and table in which no record of the normalized
  email with that \<open>classId\<close> is active, an \<open>enrollInClass\<close> that the store accepts (the store
  answers, and the generated id email-classId-timestamp is not yet a key of the table)
  succeeds and adds one record, wherever the store puts it; \<open>getUserEnrollments\<close> for the
  email then returns exactly one record with that \<open>classId\<close>, the new one, with status
  active, and \<open>isUserEnrolledInClass\<close> is true. In every state \<open>isUserEnrolledInClass\<close> is
  true iff some record returned by \<open>getUserEnrollments\<close> has the \<open>classId\<close>.
\<close>

theorem enroll_round_trip:
  assumes prior: "\<not> list_ex (\<lambda>x. email x = normalizeEmail em \<and> classId x = cid
                                \<and> status x = active) tbl"
    and fresh: "\<not> list_ex (\<lambda>x. enrollmentId x = em @ ''-'' @ cid @ ''-'' @ showNat ms) tbl"
  shows "enrollInClass None pos ts ms em cn cid tbl
           = (Inr (), insertAt pos \<lparr>enrollmentId = em @ ''-'' @ cid @ ''-'' @ showNat ms,
                 email = normalizeEmail em, className = cn, classId = cid,
                 enrolledAt = ts, status = active, updatedAt = None\<rparr> tbl)
     \<and> filter (\<lambda>x. classId x = cid)
          (getUserEnrollments None em (snd (enrollInClass None pos ts ms em cn cid tbl)))
        = [\<lparr>enrollmentId = em @ ''-'' @ cid @ ''-'' @ showNat ms,
            email = normalizeEmail em, className = cn, classId = cid,
            enrolledAt = ts, status = active, updatedAt = None\<rparr>]
     \<and> isUserEnrolledInClass None em cid (snd (enrollInClass None pos ts ms em cn cid tbl))
     \<and> (isUserEnrolledInClass fault em' cid' tbl'
          = (\<exists>x \<in> set (getUserEnrollments fault em' tbl'). classId x = cid'))"
proof -
  let ?new = "\<lparr>enrollmentId = em @ ''-'' @ cid @ ''-'' @ showNat ms,
               email = normalizeEmail em, className = cn, classId = cid,
               enrolledAt = ts, status = active, updatedAt = None\<rparr>"
  let ?mine = "\<lambda>x. (email x = normalizeEmail em \<and> status x = active) \<and> classId x = cid"
  have result: "enrollInClass None pos ts ms em cn cid tbl = (Inr (), insertAt pos ?new tbl)"
    by (rule enrollInClass_fresh [OF fresh])
  have "filter ?mine tbl = []"
    using prior by (auto simp: list_ex_iff filter_empty_conv)
  then have "filter ?mine (insertAt pos ?new tbl) = [?new]"
    by (intro filter_insertAt_other) simp_all
  then have one: "filter (\<lambda>x. classId x = cid)
                    (getUserEnrollments None em (insertAt pos ?new tbl)) = [?new]"
    by (simp add: getUserEnrollments_ok)
  have enrolled: "isUserEnrolledInClass None em cid (insertAt pos ?new tbl)"
    by (simp add: isUserEnrolledInClass_iff set_insertAt getUserEnrollments_ok)
      (rule exI [of _ ?new], simp)
  show ?thesis
    using one enrolled by (simp add: result isUserEnrolledInClass_iff)
qed

theorem enroll_round_trip_witness:
  "enrollInClass None 0 ''2025-01-01T00:00:02.000Z'' 2000 ''a@b.co''
       (Str ''Web Development 101'') ''1'' droppedOnly
     = (Inr (),
        \<lparr>enrollmentId = ''a@b.co-1-2000'', email = ''a@b.co'',
          className = Str ''Web Development 101'', classId = ''1'',
          enrolledAt = ''2025-01-01T00:00:02.000Z'', status = active, updatedAt = None\<rparr>
        # droppedOnly)
   \<and> isUserEnrolledInClass None ''a@b.co'' ''1''
        (snd (enrollInClass None 0 ''2025-01-01T00:00:02.000Z'' 2000 ''a@b.co''
                (Str ''Web Development 101'') ''1'' droppedOnly))"
proof -
  have prior: "\<not> list_ex (\<lambda>x. email x = normalizeEmail ''a@b.co'' \<and> classId x = ''1''
                                \<and> status x = active) droppedOnly"
    by code_simp
  have fresh: "\<not> list_ex (\<lambda>x. enrollmentId x = ''a@b.co'' @ ''-'' @ ''1'' @ ''-'' @ showNat 2000)
                   droppedOnly"
    by code_simp
  have rendered: "showNat 2000 = ''2000''" "normalizeEmail ''a@b.co'' = ''a@b.co''"
    by code_simp+
  note trip = enroll_round_trip [OF prior fresh, where pos = 0
      and ts = "''2025-01-01T00:00:02.000Z''" and cn = "Str ''Web Development 101''"]
  from trip rendered have stored:
    "enrollInClass None 0 ''2025-01-01T00:00:02.000Z'' 2000 ''a@b.co''
       (Str ''Web Development 101'') ''1'' droppedOnly
     = (Inr (),
        \<lparr>enrollmentId = ''a@b.co-1-2000'', email = ''a@b.co'',
          className = Str ''Web Development 101'', classId = ''1'',
          enrolledAt = ''2025-01-01T00:00:02.000Z'', status = active, updatedAt = None\<rparr>
        # droppedOnly)"
    by (simp add: insertAt_def)
  from trip have enrolled:
    "isUserEnrolledInClass None ''a@b.co'' ''1''
        (snd (enrollInClass None 0 ''2025-01-01T00:00:02.000Z'' 2000 ''a@b.co''
                (Str ''Web Development 101'') ''1'' droppedOnly))"
    by blast
  from stored enrolled show ?thesis
    by blast
qed

subsection \<open>Dropping an enrollment\<close>

lemma replaceItem_map:
  "distinct (map key tbl) \<Longrightarrow> r \<in> set tbl \<Longrightarrow> key r' = key r \<Longrightarrow>
   replaceItem key r' tbl = map (\<lambda>x. if x = r then r' else x) tbl"
proof (induction tbl)
  case Nil
  then show ?case by simp
next
  case (Cons a tbl)
  show ?case
  proof (cases "a = r")
    case True
    with Cons.prems have "r \<notin> set tbl" by auto
    then have "map (\<lambda>x. if x = r then r' else x) tbl = tbl"
      by (induction tbl) auto
    with True Cons.prems show ?thesis by simp
  next
    case False
    with Cons.prems have "r \<in> set tbl" "key a \<noteq> key r"
      by (auto simp: image_iff)
    with Cons False show ?thesis by simp
  qed
qed

lemma find_mem: "find P xs = Some r \<Longrightarrow> r \<in> set xs \<and> P r"
  by (induction xs) (auto split: if_splits)

lemma unenroll_found:
  assumes keyed: "distinct (map enrollmentId tbl)"
    and found: "find (\<lambda>e. classId e = k \<or> className e = Str k) (getUserEnrollments None em tbl)
                  = Some r"
  shows "unenrollFromClass None None now em k tbl
           = (Inr (), map (\<lambda>x. if x = r then r\<lparr>status := dropped, updatedAt := Some now\<rparr>
                               else x) tbl)"
proof -
  have "r \<in> set tbl"
    using find_mem [OF found] by (simp add: getUserEnrollments_ok)
  then have "replaceItem enrollmentId (r\<lparr>status := dropped, updatedAt := Some now\<rparr>) tbl
               = map (\<lambda>x. if x = r then r\<lparr>status := dropped, updatedAt := Some now\<rparr>
                             else x) tbl"
    using keyed by (intro replaceItem_map) simp_all
  then show ?thesis
    using found by (simp add: unenrollFromClass_def unenrollFromClass_try_def putItem_def)
qed

lemma unenroll_not_found:
  assumes "find (\<lambda>e. classId e = k \<or> className e = Str k) (getUserEnrollments sf em tbl) = None"
  shows "unenrollFromClass_try sf pf now em k tbl = (Inl (Error ''Enrollment not found''), tbl)
     \<and> unenrollFromClass sf pf now em k tbl
         = (Inl (Error ''Failed to unenroll from class''), tbl)"
  using assms by (simp add: unenrollFromClass_def unenrollFromClass_try_def)

lemma unenroll_put_failed:
  assumes "find (\<lambda>e. classId e = k \<or> className e = Str k) (getUserEnrollments sf em tbl) = Some r"
  shows "unenrollFromClass sf (Some e) now em k tbl
           = (Inl (Error ''Failed to unenroll from class''), tbl)"
  using assms by (simp add: unenrollFromClass_def unenrollFromClass_try_def putItem_def)

text \<open>
  C4: with no active enrollment to match, the \<open>try\<close> block of \<open>unenrollFromClass\<close> throws
  \<open>Enrollment not found\<close>, and the function's own \<open>catch\<close> replaces it by the error it
  throws for any failure, \<open>Failed to unenroll from class\<close>: the caller gets the same error
  as for a store that is down, and \<open>DELETE\<close> answers 500 with its generic text, the answer
  it also gives when the store throws. Evaluated for a user with no enrollments.
\<close>

theorem unenroll_not_found_is_generic:
  "unenrollFromClass_try None None ''2025-01-01T00:00:01.000Z'' ''a@b.co''
       ''Web Development 101'' []
     = (Inl (Error ''Enrollment not found''), [])
   \<and> unenrollFromClass None None ''2025-01-01T00:00:01.000Z'' ''a@b.co''
       ''Web Development 101'' []
     = (Inl (Error ''Failed to unenroll from class''), [])
   \<and> DELETE firstCall (Some ''a@b.co'') unenrollRequest freshState
     = (createErrorResponse ''Failed to unenroll from class. Please try again.''
          INTERNAL_SERVER_ERROR, freshState)
   \<and> DELETE (firstCall\<lparr>scanFault := Some (Error ''socket hang up'')\<rparr>) (Some ''a@b.co'')
         unenrollRequest freshState
     = DELETE firstCall (Some ''a@b.co'') unenrollRequest freshState"
  by (simp add: unenrollFromClass_def unenrollFromClass_try_def getUserEnrollments_def
      scan_def DELETE_def DELETE_try_def validateMethod_def validateContentType_def
      requireAuthentication_def parseRequestBody_def unenrollRequest_def freshState_def
      firstCall_def Error_def)

text \<open>
  C5, as stated, has \<open>isUserEnrolledInClass\<close> false after any successful drop. Nothing
  keeps a second active record for the same pair out of the table: \<open>enrollInClass\<close> checks
  only its generated id, so two calls a millisecond apart store two active records, and
  the drop rewrites one of them only.
\<close>

theorem unenroll_duplicate_counterexample:
  "fst (unenrollFromClass None None ''t2'' ''a@b.co'' ''1''
         (snd (enrollInClass None 1 ''t1'' 1001 ''a@b.co'' (Str ''Web Development 101'') ''1''
            (snd (enrollInClass None 0 ''t0'' 1000 ''a@b.co'' (Str ''Web Development 101'')
                    ''1'' [])))))
     = Inr ()
   \<and> isUserEnrolledInClass None ''a@b.co'' ''1''
       (snd (unenrollFromClass None None ''t2'' ''a@b.co'' ''1''
         (snd (enrollInClass None 1 ''t1'' 1001 ''a@b.co'' (Str ''Web Development 101'') ''1''
            (snd (enrollInClass None 0 ''t0'' 1000 ''a@b.co'' (Str ''Web Development 101'')
                    ''1'' []))))))"
  by code_simp

text \<open>
  C5 (amended): when \<open>unenrollFromClass\<close> finds a matching active enrollment \<open>r\<close> and the
  store answers, the table afterwards is the table before with exactly \<open>r\<close> replaced by \<open>r\<close>
  with status dropped and the fresh \<open>updatedAt\<close>: every other record, and the \<open>id\<close> and
  \<open>enrolledAt\<close> of every record, are as before, and nothing is removed. \<open>getAllEnrollments\<close>
  still returns the record, now dropped. If \<open>r\<close> was the only active record of the email
  with its \<open>classId\<close>, \<open>isUserEnrolledInClass\<close> for that class is false afterwards.
\<close>

theorem unenroll_rewrites_one_record:
  assumes keyed: "distinct (map enrollmentId tbl)"
    and found: "find (\<lambda>e. classId e = k \<or> className e = Str k) (getUserEnrollments None em tbl)
                  = Some r"
  shows "unenrollFromClass None None now em k tbl
           = (Inr (), map (\<lambda>x. if x = r then r\<lparr>status := dropped, updatedAt := Some now\<rparr>
                               else x) tbl)
     \<and> map enrollmentId (snd (unenrollFromClass None None now em k tbl)) = map enrollmentId tbl
     \<and> map enrolledAt (snd (unenrollFromClass None None now em k tbl)) = map enrolledAt tbl
     \<and> r\<lparr>status := dropped, updatedAt := Some now\<rparr>
          \<in> set (getAllEnrollments None (snd (unenrollFromClass None None now em k tbl)))
     \<and> ((\<forall>x \<in> set (getUserEnrollments None em tbl). classId x = classId r \<longrightarrow> x = r) \<longrightarrow>
          \<not> isUserEnrolledInClass None em (classId r)
               (snd (unenrollFromClass None None now em k tbl)))"
proof -
  let ?r' = "r\<lparr>status := dropped, updatedAt := Some now\<rparr>"
  let ?tbl' = "map (\<lambda>x. if x = r then ?r' else x) tbl"
  have res: "unenrollFromClass None None now em k tbl = (Inr (), ?tbl')"
    by (rule unenroll_found [OF keyed found])
  have rin: "r \<in> set tbl"
    using find_mem [OF found] by (simp add: getUserEnrollments_ok)
  have ids: "map enrollmentId ?tbl' = map enrollmentId tbl"
    by (induction tbl) auto
  have ats: "map enrolledAt ?tbl' = map enrolledAt tbl"
    by (induction tbl) auto
  have kept: "?r' \<in> set (getAllEnrollments None ?tbl')"
    using rin by (force simp: getAllEnrollments_def scan_def)
  have gone: "\<not> isUserEnrolledInClass None em (classId r) ?tbl'"
    if uniq: "\<forall>x \<in> set (getUserEnrollments None em tbl). classId x = classId r \<longrightarrow> x = r"
  proof
    assume "isUserEnrolledInClass None em (classId r) ?tbl'"
    then obtain y where y: "y \<in> set ?tbl'" "email y = normalizeEmail em" "status y = active"
        "classId y = classId r"
      by (auto simp: isUserEnrolledInClass_iff getUserEnrollments_ok)
    from y(1) obtain x where x: "x \<in> set tbl" "y = (if x = r then ?r' else x)"
      by auto
    show False
    proof (cases "x = r")
      case True
      with x y(3) show False by simp
    next
      case False
      with x y have "x \<in> set (getUserEnrollments None em tbl)" "classId x = classId r"
        by (simp_all add: getUserEnrollments_ok)
      with uniq False show False by blast
    qed
  qed
  show ?thesis
    using res ids ats kept gone by simp
qed

theorem unenroll_rewrites_one_record_witness:
  "unenrollFromClass None None ''2025-01-01T00:00:09.000Z'' ''a@b.co'' ''1'' twoEnrollments
     = (Inr (),
        [\<lparr>enrollmentId = ''a@b.co-1-1000'', email = ''a@b.co'',
          className = Str ''Web Development 101'', classId = ''1'',
          enrolledAt = ''2025-01-01T00:00:01.000Z'', status = dropped,
          updatedAt = Some ''2025-01-01T00:00:09.000Z''\<rparr>,
         \<lparr>enrollmentId = ''a@b.co-2-2000'', email = ''a@b.co'',
          className = Str ''Database Basics'', classId = ''2'',
          enrolledAt = ''2025-01-01T00:00:02.000Z'', status = active, updatedAt = None\<rparr>])
   \<and> \<not> isUserEnrolledInClass None ''a@b.co'' ''1''
        (snd (unenrollFromClass None None ''2025-01-01T00:00:09.000Z'' ''a@b.co'' ''1''
                twoEnrollments))"
proof -
  let ?r = "\<lparr>enrollmentId = ''a@b.co-1-1000'', email = ''a@b.co'',
       className = Str ''Web Development 101'', classId = ''1'',
       enrolledAt = ''2025-01-01T00:00:01.000Z'', status = active, updatedAt = None\<rparr>"
  have keyed: "distinct (map enrollmentId twoEnrollments)"
    by code_simp
  have found: "find (\<lambda>e. classId e = ''1'' \<or> className e = Str ''1'')
                 (getUserEnrollments None ''a@b.co'' twoEnrollments) = Some ?r"
    by code_simp
  have uniq: "\<forall>x \<in> set (getUserEnrollments None ''a@b.co'' twoEnrollments).
                classId x = classId ?r \<longrightarrow> x = ?r"
    by code_simp
  note rewritten =
    unenroll_rewrites_one_record [OF keyed found, of "''2025-01-01T00:00:09.000Z''"]
  from rewritten have result:
    "unenrollFromClass None None ''2025-01-01T00:00:09.000Z'' ''a@b.co'' ''1'' twoEnrollments
       = (Inr (), map (\<lambda>x. if x = ?r
                              then ?r\<lparr>status := dropped,
                                      updatedAt := Some ''2025-01-01T00:00:09.000Z''\<rparr>
                              else x) twoEnrollments)"
    by blast
  from rewritten uniq have gone:
    "\<not> isUserEnrolledInClass None ''a@b.co'' (classId ?r)
        (snd (unenrollFromClass None None ''2025-01-01T00:00:09.000Z'' ''a@b.co'' ''1''
                twoEnrollments))"
    by blast
  from result gone show ?thesis
    by (simp add: twoEnrollments_def)
qed

section \<open>Properties of the enrollments API\<close>

lemma requireAuthentication_none:
  "session = None \<or> session = Some [] \<Longrightarrow>
   requireAuthentication session = Inl (Error ''Authentication required'')"
  by (auto simp: requireAuthentication_def)

lemma message_Error: "message (Error m) = m"
  by (simp add: Error_def)

text \<open>
  C9, as stated, has every handler answer an unauthenticated call with the
  authentication error. \<open>POST\<close> and \<open>DELETE\<close> check the method and the content type before
  they ask for the session: the enroll request sent without a JSON content type and
  without a session is answered 400 \<open>Invalid content type\<close>.
\<close>

theorem unauthenticated_post_counterexample:
  "POST firstCall None (enrollRequest\<lparr>contentType := Some ''text/plain''\<rparr>) freshState
     = (\<lparr>httpStatus = 400,
         body = ApiResponse False None None (Some ''Invalid content type'')\<rparr>, freshState)"
  by (simp add: POST_def POST_try_def validateMethod_def validateContentType_def
      enrollRequest_def createErrorResponse_def BAD_REQUEST_def)

text \<open>
  C9 (amended): invoked without a resolved identity (no session, or a session without an
  email), no handler writes: the enrollments table and the rate limiter are as before.
  \<open>GET\<close> answers 401 \<open>Unauthorized\<close>. \<open>POST\<close> and \<open>DELETE\<close> answer 401
  \<open>Authentication required\<close> when the request passes their method and content-type checks,
  and 400 with the check's message when it does not.
\<close>

theorem unauthenticated_no_writes:
  assumes "session = None \<or> session = Some []"
  shows "GET ev session st = (\<lparr>httpStatus = 401, body = ErrorObject ''Unauthorized''\<rparr>, st)
     \<and> snd (POST ev session req st) = st
     \<and> snd (DELETE ev session req st) = st
     \<and> fst (POST ev session req st)
         = (if \<not> validateMethod req [''POST'']
            then createErrorResponse ''Method not allowed'' BAD_REQUEST
            else if \<not> validateContentType req ''application/json''
            then createErrorResponse ''Invalid content type'' BAD_REQUEST
            else createErrorResponse ''Authentication required'' UNAUTHORIZED)
     \<and> fst (DELETE ev session req st)
         = (if \<not> validateMethod req [''DELETE'']
            then createErrorResponse ''Method not allowed'' BAD_REQUEST
            else if \<not> validateContentType req ''application/json''
            then createErrorResponse ''Invalid content type'' BAD_REQUEST
            else createErrorResponse ''Authentication required'' UNAUTHORIZED)"
  using requireAuthentication_none [OF assms]
  by (simp add: GET_def GET_try_def POST_def POST_try_def DELETE_def DELETE_try_def
      message_Error)

theorem unauthenticated_no_writes_witness:
  "GET firstCall None (freshState\<lparr>enrollments := twoEnrollments\<rparr>)
     = (\<lparr>httpStatus = 401, body = ErrorObject ''Unauthorized''\<rparr>,
        freshState\<lparr>enrollments := twoEnrollments\<rparr>)
   \<and> POST firstCall None enrollRequest (freshState\<lparr>enrollments := twoEnrollments\<rparr>)
     = (createErrorResponse ''Authentication required'' UNAUTHORIZED,
        freshState\<lparr>enrollments := twoEnrollments\<rparr>)
   \<and> DELETE firstCall (Some []) unenrollRequest (freshState\<lparr>enrollments := twoEnrollments\<rparr>)
     = (createErrorResponse ''Authentication required'' UNAUTHORIZED,
        freshState\<lparr>enrollments := twoEnrollments\<rparr>)"
proof -
  have checks: "validateMethod enrollRequest [''POST'']"
    "validateContentType enrollRequest ''application/json''"
    "validateMethod unenrollRequest [''DELETE'']"
    "validateContentType unenrollRequest ''application/json''"
    by (simp_all add: validateMethod_def validateContentType_def enrollRequest_def
        unenrollRequest_def)
  from unauthenticated_no_writes
      [where session = None and ev = firstCall and req = enrollRequest
         and st = "freshState\<lparr>enrollments := twoEnrollments\<rparr>"]
    unauthenticated_no_writes
      [where session = "Some []" and ev = firstCall and req = unenrollRequest
         and st = "freshState\<lparr>enrollments := twoEnrollments\<rparr>"]
    checks
  show ?thesis
    by (simp add: prod_eq_iff)
qed

subsection \<open>Enrolling twice\<close>

lemma POST_enrolls:
  assumes auth: "session = Some (c # cs)"
    and req: "validateMethod req [''POST'']" "validateContentType req ''application/json''"
      "parseRequestBody req 512 = Inr b" "enrollmentSchema b = Some (cid, ''enroll'')"
    and cls: "classNames cid = Some cn"
    and prior: "\<not> isUserEnrolledInClass None (c # cs) cid (enrollments st)"
    and fresh: "\<not> list_ex (\<lambda>x. enrollmentId x
                   = (c # cs) @ ''-'' @ cid @ ''-'' @ showNat (nowMs ev)) (enrollments st)"
    and store: "scanFault ev = None" "putFault ev = None"
    and admitted: "fst (isAllowed (limiterNow ev)
                     (''enrollment-'' @ (c # cs) @ ''-'' @ getClientIP req) (apiRateLimiter st))"
  shows "POST ev session req st
     = (createApiResponse (Enrolled ''Successfully enrolled in class'' cid cn)
          ''Enrollment successful'' CREATED,
        \<lparr>enrollments = insertAt (slot ev)
            \<lparr>enrollmentId = (c # cs) @ ''-'' @ cid @ ''-'' @ showNat (nowMs ev),
              email = normalizeEmail (c # cs), className = cn, classId = cid,
              enrolledAt = nowIso ev, status = active, updatedAt = None\<rparr>
            (enrollments st),
          apiRateLimiter = snd (isAllowed (limiterNow ev)
                     (''enrollment-'' @ (c # cs) @ ''-'' @ getClientIP req)
                     (apiRateLimiter st))\<rparr>)"
  using assms(1-7) store admitted enrollInClass_fresh [OF fresh]
  by (simp add: POST_def POST_try_def requireAuthentication_def split_def Let_def)

lemma POST_already:
  assumes auth: "session = Some (c # cs)"
    and req: "validateMethod req [''POST'']" "validateContentType req ''application/json''"
      "parseRequestBody req 512 = Inr b" "enrollmentSchema b = Some (cid, ''enroll'')"
    and prior: "isUserEnrolledInClass None (c # cs) cid (enrollments st)"
    and store: "scanFault ev = None"
    and admitted: "fst (isAllowed (limiterNow ev)
                     (''enrollment-'' @ (c # cs) @ ''-'' @ getClientIP req) (apiRateLimiter st))"
  shows "POST ev session req st
     = (createErrorResponse ''You are already enrolled in this class'' CONFLICT,
        st\<lparr>apiRateLimiter := snd (isAllowed (limiterNow ev)
                     (''enrollment-'' @ (c # cs) @ ''-'' @ getClientIP req)
                     (apiRateLimiter st))\<rparr>)"
  using assms
  by (simp add: POST_def POST_try_def requireAuthentication_def split_def Let_def)

text \<open>
  The one path on which \<open>POST\<close> answers a duplicate with a success, the \<open>catch\<close> around
  \<open>enrollInClass\<close> (\<open>Return success instead of error for duplicate enrollment\<close>): the check
  before the enrollment finds nothing, and the conditional write fails because the
  generated id is taken.
\<close>

lemma POST_id_taken:
  assumes auth: "session = Some (c # cs)"
    and req: "validateMethod req [''POST'']" "validateContentType req ''application/json''"
      "parseRequestBody req 512 = Inr b" "enrollmentSchema b = Some (cid, ''enroll'')"
    and cls: "classNames cid = Some cn"
    and prior: "\<not> isUserEnrolledInClass (scanFault ev) (c # cs) cid (enrollments st)"
    and taken: "list_ex (\<lambda>x. enrollmentId x
                   = (c # cs) @ ''-'' @ cid @ ''-'' @ showNat (nowMs ev)) (enrollments st)"
    and store: "putFault ev = None"
    and admitted: "fst (isAllowed (limiterNow ev)
                     (''enrollment-'' @ (c # cs) @ ''-'' @ getClientIP req) (apiRateLimiter st))"
  shows "POST ev session req st
     = (createApiResponse (AlreadyEnrolled ''You are already enrolled in this class'' cid cn)
          ''Already enrolled'' OK,
        st\<lparr>apiRateLimiter := snd (isAllowed (limiterNow ev)
                     (''enrollment-'' @ (c # cs) @ ''-'' @ getClientIP req)
                     (apiRateLimiter st))\<rparr>)"
  using assms
  by (simp add: POST_def POST_try_def requireAuthentication_def split_def Let_def
      enrollInClass_def putIfAbsent_def conditionalCheckFailed_def Error_def)

text \<open>
  Two enroll calls in sequence, for every identity and every class the catalogue answers
  for, with no active enrollment for the pair before, the store answering, the limiter
  admitting both and the generated id not taken: the first call is answered 201, the second
  409 with the error text, and the one record the first call wrote is the only active one
  for the pair.
\<close>

lemma POST_twice:
  assumes auth: "session = Some (c # cs)"
    and req: "validateMethod req [''POST'']" "validateContentType req ''application/json''"
      "parseRequestBody req 512 = Inr b" "enrollmentSchema b = Some (cid, ''enroll'')"
    and cls: "classNames cid = Some cn"
    and prior: "\<not> list_ex (\<lambda>x. email x = normalizeEmail (c # cs) \<and> classId x = cid
                                \<and> status x = active) (enrollments st)"
    and fresh: "\<not> list_ex (\<lambda>x. enrollmentId x
                   = (c # cs) @ ''-'' @ cid @ ''-'' @ showNat (nowMs ev1)) (enrollments st)"
    and store1: "scanFault ev1 = None" "putFault ev1 = None"
    and store2: "scanFault ev2 = None"
    and admitted1: "fst (isAllowed (limiterNow ev1)
                     (''enrollment-'' @ (c # cs) @ ''-'' @ getClientIP req) (apiRateLimiter st))"
    and admitted2: "fst (isAllowed (limiterNow ev2)
                     (''enrollment-'' @ (c # cs) @ ''-'' @ getClientIP req)
                     (snd (isAllowed (limiterNow ev1)
                        (''enrollment-'' @ (c # cs) @ ''-'' @ getClientIP req)
                        (apiRateLimiter st))))"
  shows "fst (POST ev1 session req st)
           = createApiResponse (Enrolled ''Successfully enrolled in class'' cid cn)
               ''Enrollment successful'' CREATED
     \<and> fst (POST ev2 session req (snd (POST ev1 session req st)))
           = createErrorResponse ''You are already enrolled in this class'' CONFLICT
     \<and> enrollments (snd (POST ev2 session req (snd (POST ev1 session req st))))
           = enrollments (snd (POST ev1 session req st))
     \<and> filter (\<lambda>x. classId x = cid)
          (getUserEnrollments None (c # cs)
             (enrollments (snd (POST ev2 session req (snd (POST ev1 session req st))))))
           = [\<lparr>enrollmentId = (c # cs) @ ''-'' @ cid @ ''-'' @ showNat (nowMs ev1),
               email = normalizeEmail (c # cs), className = cn, classId = cid,
               enrolledAt = nowIso ev1, status = active, updatedAt = None\<rparr>]"
proof -
  let ?key = "''enrollment-'' @ (c # cs) @ ''-'' @ getClientIP req"
  let ?new = "\<lparr>enrollmentId = (c # cs) @ ''-'' @ cid @ ''-'' @ showNat (nowMs ev1),
               email = normalizeEmail (c # cs), className = cn, classId = cid,
               enrolledAt = nowIso ev1, status = active, updatedAt = None\<rparr>"
  let ?st1 = "\<lparr>enrollments = insertAt (slot ev1) ?new (enrollments st),
               apiRateLimiter = snd (isAllowed (limiterNow ev1) ?key (apiRateLimiter st))\<rparr>"
  let ?mine = "\<lambda>x. (email x = normalizeEmail (c # cs) \<and> status x = active) \<and> classId x = cid"
  have none: "filter ?mine (enrollments st) = []"
    using prior by (auto simp: list_ex_iff filter_empty_conv)
  then have before: "\<not> isUserEnrolledInClass None (c # cs) cid (enrollments st)"
    by (auto simp: isUserEnrolledInClass_iff getUserEnrollments_ok filter_empty_conv)
  have first: "POST ev1 session req st
                 = (createApiResponse (Enrolled ''Successfully enrolled in class'' cid cn)
                      ''Enrollment successful'' CREATED, ?st1)"
    by (rule POST_enrolls [OF auth req cls before fresh store1 admitted1])
  from none have "filter ?mine (insertAt (slot ev1) ?new (enrollments st)) = [?new]"
    by (intro filter_insertAt_other) simp_all
  then have one: "filter (\<lambda>x. classId x = cid)
                    (getUserEnrollments None (c # cs) (enrollments ?st1)) = [?new]"
    by (simp add: getUserEnrollments_ok)
  have enrolled: "isUserEnrolledInClass None (c # cs) cid (enrollments ?st1)"
    by (simp add: isUserEnrolledInClass_iff set_insertAt getUserEnrollments_ok)
      (rule exI [of _ ?new], simp)
  have adm: "fst (isAllowed (limiterNow ev2) ?key (apiRateLimiter ?st1))"
    using admitted2 by simp
  have second: "POST ev2 session req ?st1
                  = (createErrorResponse ''You are already enrolled in this class'' CONFLICT,
                     ?st1\<lparr>apiRateLimiter :=
                            snd (isAllowed (limiterNow ev2) ?key (apiRateLimiter ?st1))\<rparr>)"
    by (rule POST_already [OF auth req enrolled store2 adm])
  have answer1: "fst (POST ev1 session req st)
                   = createApiResponse (Enrolled ''Successfully enrolled in class'' cid cn)
                       ''Enrollment successful'' CREATED"
    by (simp only: first fst_conv)
  have state1: "snd (POST ev1 session req st) = ?st1"
    by (simp only: first snd_conv)
  have answer2: "fst (POST ev2 session req ?st1)
                   = createErrorResponse ''You are already enrolled in this class'' CONFLICT"
    by (simp only: second fst_conv)
  have table2: "enrollments (snd (POST ev2 session req ?st1)) = enrollments ?st1"
    unfolding second snd_conv by simp
  show ?thesis
    by (simp only: state1 answer1 answer2 table2 one simp_thms)
qed

text \<open>
  C1: two \<open>Enroll\<close> calls in sequence are to succeed both times, the second with a
  non-error "already enrolled" result, leaving one active record for the pair. Evaluated
  in a fresh process on the request the dashboard sends for class 1, for the identity
  \<open>a@b.co\<close>, a second apart: the first call is answered 201; the second is answered 409
  with \<open>success = false\<close> and the error \<open>You are already enrolled in this class\<close>, by the
  check that precedes the enrollment; the table then holds the one active record. The
  success answer the claim describes (200, \<open>Already enrolled\<close>, \<open>alreadyEnrolled\<close>) is in
  the handler, in the \<open>catch\<close> around \<open>enrollInClass\<close>, and the same request reaches it
  only when the check finds nothing and the generated id is taken, as on the table whose
  one record is the dropped \<open>a@b.co-1-1000\<close>.
\<close>

theorem enroll_twice_second_is_conflict:
  "fst (POST firstCall (Some ''a@b.co'') enrollRequest freshState)
     = \<lparr>httpStatus = 201,
        body = ApiResponse True
                 (Some (Enrolled ''Successfully enrolled in class'' ''1''
                          (Str ''Web Development 101'')))
                 (Some ''Enrollment successful'') None\<rparr>
   \<and> fst (POST secondCall (Some ''a@b.co'') enrollRequest
            (snd (POST firstCall (Some ''a@b.co'') enrollRequest freshState)))
     = \<lparr>httpStatus = 409,
        body = ApiResponse False None None (Some ''You are already enrolled in this class'')\<rparr>
   \<and> enrollments (snd (POST secondCall (Some ''a@b.co'') enrollRequest
            (snd (POST firstCall (Some ''a@b.co'') enrollRequest freshState))))
     = [\<lparr>enrollmentId = ''a@b.co-1-1000'', email = ''a@b.co'',
         className = Str ''Web Development 101'', classId = ''1'',
         enrolledAt = ''2025-01-01T00:00:01.000Z'', status = active, updatedAt = None\<rparr>]
   \<and> fst (POST firstCall (Some ''a@b.co'') enrollRequest
            (freshState\<lparr>enrollments := droppedOnly\<rparr>))
     = \<lparr>httpStatus = 200,
        body = ApiResponse True
                 (Some (AlreadyEnrolled ''You are already enrolled in this class'' ''1''
                          (Str ''Web Development 101'')))
                 (Some ''Already enrolled'') None\<rparr>
   \<and> enrollments (snd (POST firstCall (Some ''a@b.co'') enrollRequest
            (freshState\<lparr>enrollments := droppedOnly\<rparr>)))
     = droppedOnly"
  by code_simp

subsection \<open>A failed check before the enrollment\<close>

text \<open>
  Since \<open>isUserEnrolledInClass\<close> answers false when its scan throws, \<open>POST\<close> then goes on to
  enroll: the second call of the sequence above, with the scan failing, is answered 201
  and leaves two active records for the pair.
\<close>

lemma POST_failed_check_enrolls_again:
  "fst (POST (secondCall\<lparr>scanFault := Some (Error ''socket hang up'')\<rparr>) (Some ''a@b.co'')
          enrollRequest (snd (POST firstCall (Some ''a@b.co'') enrollRequest freshState)))
     = createApiResponse
         (Enrolled ''Successfully enrolled in class'' ''1'' (Str ''Web Development 101''))
         ''Enrollment successful'' CREATED
   \<and> map enrollmentId
        (filter (\<lambda>x. classId x = ''1'')
          (getUserEnrollments None ''a@b.co''
            (enrollments
              (snd (POST (secondCall\<lparr>scanFault := Some (Error ''socket hang up'')\<rparr>)
                      (Some ''a@b.co'') enrollRequest
                      (snd (POST firstCall (Some ''a@b.co'') enrollRequest freshState)))))))
     = [''a@b.co-1-1000'', ''a@b.co-1-2000'']"
  by code_simp

subsection \<open>A class id that names an inherited member\<close>

text \<open>
  \<open>classNames[classId]\<close> is truthy for a \<open>classId\<close> such as \<open>constructor\<close>, which the schema
  accepts: with the store taking the item, the call is answered 201 and a record for that
  id is written; an id the lookup has nothing for is answered 404.
\<close>

lemma POST_inherited_key:
  "fst (POST firstCall (Some ''a@b.co'')
          (enrollRequest\<lparr>jsonBody := Some (JObject [(''classId'', JString ''constructor''),
                                                    (''action'', JString ''enroll'')])\<rparr>)
          freshState)
     = \<lparr>httpStatus = 201,
        body = ApiResponse True
                 (Some (Enrolled ''Successfully enrolled in class'' ''constructor''
                          (ProtoMember ''constructor'')))
                 (Some ''Enrollment successful'') None\<rparr>
   \<and> map classId (enrollments (snd (POST firstCall (Some ''a@b.co'')
          (enrollRequest\<lparr>jsonBody := Some (JObject [(''classId'', JString ''constructor''),
                                                    (''action'', JString ''enroll'')])\<rparr>)
          freshState)))
     = [''constructor'']
   \<and> fst (POST firstCall (Some ''a@b.co'')
          (enrollRequest\<lparr>jsonBody := Some (JObject [(''classId'', JString ''4''),
                                                    (''action'', JString ''enroll'')])\<rparr>)
          freshState)
     = \<lparr>httpStatus = 404, body = ApiResponse False None None (Some ''Class not found'')\<rparr>"
  by code_simp

end
